theory Spec2Isabelle
  imports Complex_Main "HOL-Library.Sublist"
begin

section \<open>Values shared by the example servers\<close>

text \<open>
  A Python \<open>dict\<close> keeps its keys in insertion order: assigning to a key that is present
  replaces the value in place, assigning to a new key appends it. Dicts are association
  lists with exactly that update.
\<close>

type_synonym ('k, 'v) dict = "('k \<times> 'v) list"

primrec setitem :: "'k \<Rightarrow> 'v \<Rightarrow> ('k, 'v) dict \<Rightarrow> ('k, 'v) dict" where
  "setitem k v [] = [(k, v)]"
| "setitem k v (p # ps) = (if fst p = k then (k, v) # ps else p # setitem k v ps)"

definition dict_get :: "('k, 'v) dict \<Rightarrow> 'k \<Rightarrow> 'v option" where
  "dict_get d k = map_of d k"

text \<open>The data handed to \<open>json.dumps\<close>; the serialised text itself is not modelled.\<close>

datatype json =
    JNull
  | JBool bool
  | JInt int
  | JStr string
  | JList "json list"
  | JDict "(string \<times> json) list"

text \<open>
  What \<open>Response.send\<close> is given: a \<open>str\<close>, a \<open>bytes\<close> object, or the \<open>str\<close> that
  \<open>json.dumps\<close> made of a value (\<open>Dumps d\<close> stands for that text).
\<close>

datatype content = Str string | Bytes string | Dumps json

text \<open>
  Exceptions derived from \<open>Exception\<close>: the class name, \<open>str(e)\<close>, and the optional
  attribute \<open>status_code\<close> that \<open>error_handler\<close> reads with \<open>getattr\<close>.
\<close>

datatype exn = Exception (exn_name: string) (exn_msg: string) (exn_status: "int option")

subsection \<open>Strings\<close>

definition startswith :: "string \<Rightarrow> string \<Rightarrow> bool" where
  "startswith s p = (take (length p) s = p)"

definition endswith :: "string \<Rightarrow> string \<Rightarrow> bool" where
  "endswith s p = (length p \<le> length s \<and> drop (length s - length p) s = p)"

text \<open>\<open>p in s\<close> for strings: \<open>p\<close> occurs in \<open>s\<close> as a contiguous piece.\<close>

fun contains :: "string \<Rightarrow> string \<Rightarrow> bool" where
  "contains [] p = (p = [])"
| "contains (c # cs) p = (startswith (c # cs) p \<or> contains cs p)"

text \<open>\<open>s.split(sep)\<close> for a one-character separator: never empty, empty pieces kept.\<close>

fun split :: "char \<Rightarrow> string \<Rightarrow> string list" where
  "split sep [] = [[]]"
| "split sep (c # cs) =
     (case split sep cs of
        [] \<Rightarrow> (if c = sep then [[], []] else [[c]])
      | w # ws \<Rightarrow> (if c = sep then [] # w # ws else (c # w) # ws))"

text \<open>\<open>s.split(sep, 1)\<close>: at most one cut, at the first separator.\<close>

fun split1 :: "char \<Rightarrow> string \<Rightarrow> string list" where
  "split1 sep [] = [[]]"
| "split1 sep (c # cs) =
     (if c = sep then [[], cs]
      else (case split1 sep cs of
              [] \<Rightarrow> [[c]]
            | w # ws \<Rightarrow> (c # w) # ws))"

text \<open>\<open>sep.join(xs)\<close>.\<close>

fun join :: "string \<Rightarrow> string list \<Rightarrow> string" where
  "join sep [] = []"
| "join sep [x] = x"
| "join sep (x # y # ys) = x @ sep @ join sep (y # ys)"

text \<open>\<open>str.lower\<close> on the ASCII letters, the only ones a header name may hold.\<close>

definition lower_char :: "char \<Rightarrow> char" where
  "lower_char c =
     (let n = (of_char c :: nat) in if 65 \<le> n \<and> n \<le> 90 then char_of (n + 32) else c)"

definition lower :: "string \<Rightarrow> string" where
  "lower s = map lower_char s"

text \<open>\<open>str(n)\<close> for an integer.\<close>

fun digits :: "nat \<Rightarrow> string" where
  "digits n =
     (if n < 10 then [char_of (48 + n)]
      else digits (n div 10) @ [char_of (48 + n mod 10)])"

declare digits.simps [simp del]

definition str_int :: "int \<Rightarrow> string" where
  "str_int i = (if i < 0 then CHR ''-'' # digits (nat (- i)) else digits (nat i))"

section \<open>The middleware server (examples/03-middleware/simple\_middleware.py)\<close>

subsection \<open>Request and Response\<close>

text \<open>
  A Python \<open>str\<close> is kept as the bytes of its UTF-8 encoding, a \<open>bytes\<close> object as
  its bytes.

  What the transport hands to \<open>Request.__init__\<close>: the \<open>BaseHTTPRequestHandler\<close>'s
  command, raw path and header items in wire order, the bytes waiting on \<open>rfile\<close>, and
  what \<open>json.loads\<close> makes of a text (\<open>None\<close> when it raises).
\<close>

record handler_in =
  command :: string
  raw_path :: string
  header_items :: "(string \<times> string) list"
  rfile :: string
  json_loads :: "string \<Rightarrow> json option"

record request =
  "method" :: string
  path :: string
  headers :: "(string, string) dict"
  query :: "(string, string) dict"
  body :: json
  body_raw :: string

text \<open>
  One response written to the socket: \<open>send_response\<close>, the \<open>send_header\<close> calls,
  \<open>end_headers\<close> and the body written to \<open>wfile\<close>.
\<close>

record message =
  msg_status :: int
  msg_headers :: "(string, string) dict"
  msg_body :: content

text \<open>
  The mutable state of one dispatch: the fields of the \<open>Response\<close> object and what its
  handler has written to the socket so far. The socket accepts every write.
\<close>

record state =
  status_code :: int
  res_headers :: "(string, string) dict"
  wire :: "message list"

text \<open>A call returns, or raises with the state as it was left at the raise.\<close>

datatype 's outcome = Return 's | Raise exn 's

definition Response_init :: "message list \<Rightarrow> state" where
  "Response_init w =
     \<lparr>status_code = 200, res_headers = [(''Content-Type'', ''text/html'')], wire = w\<rparr>"

definition status :: "int \<Rightarrow> 'a state_scheme \<Rightarrow> 'a state_scheme" where
  "status code s = s\<lparr>status_code := code\<rparr>"

definition set_header :: "string \<Rightarrow> string \<Rightarrow> 'a state_scheme \<Rightarrow> 'a state_scheme" where
  "set_header name v s = s\<lparr>res_headers := setitem name v (res_headers s)\<rparr>"

definition send :: "content \<Rightarrow> 'a state_scheme \<Rightarrow> 'a state_scheme" where
  "send c s =
     s\<lparr>wire := wire s @
        [\<lparr>msg_status = status_code s, msg_headers = res_headers s, msg_body = c\<rparr>]\<rparr>"

definition send_json :: "json \<Rightarrow> 'a state_scheme \<Rightarrow> 'a state_scheme" where
  "send_json data s = send (Dumps data) (set_header ''Content-Type'' ''application/json'' s)"

definition redirect :: "string \<Rightarrow> 'a state_scheme \<Rightarrow> 'a state_scheme" where
  "redirect url s = send (Str []) (set_header ''Location'' url (status 302 s))"

text \<open>
  \<open>int(s)\<close> on a string: surrounding whitespace, a sign, then decimal digits in groups
  separated by single underscores. \<open>None\<close> stands for \<open>ValueError\<close>.
\<close>

definition is_digit :: "char \<Rightarrow> bool" where
  "is_digit c = (let n = (of_char c :: nat) in 48 \<le> n \<and> n \<le> 57)"

definition is_space :: "char \<Rightarrow> bool" where
  "is_space c = (let n = (of_char c :: nat) in n = 32 \<or> (9 \<le> n \<and> n \<le> 13))"

definition strip :: "string \<Rightarrow> string" where
  "strip s = rev (dropWhile is_space (rev (dropWhile is_space s)))"

definition digits_value :: "string \<Rightarrow> int" where
  "digits_value ds = foldl (\<lambda>acc c. 10 * acc + (int (of_char c) - 48)) 0 ds"

definition py_int :: "string \<Rightarrow> int option" where
  "py_int s =
     (let t = strip s;
          neg = (t \<noteq> [] \<and> hd t = CHR ''-'');
          ds = (if t \<noteq> [] \<and> (hd t = CHR ''-'' \<or> hd t = CHR ''+'') then tl t else t);
          groups = split (CHR ''_'') ds
      in if list_all (\<lambda>g. g \<noteq> [] \<and> list_all is_digit g) groups
         then Some ((if neg then - 1 else 1) * digits_value (concat groups))
         else None)"

text \<open>
  Well-formed UTF-8, as the decoder of Python reads it. \<open>utf8_scan b bs\<close> looks at the
  sequence that the byte \<open>b\<close> starts in front of \<open>bs\<close>: how many of the bytes of \<open>bs\<close>
  belong to it, and whether it is well formed. An ill-formed sequence ends in front of
  the first byte that cannot continue it, or with the input.
\<close>

definition byte_in :: "nat \<Rightarrow> nat \<Rightarrow> char \<Rightarrow> bool" where
  "byte_in lo hi c = (lo \<le> (of_char c :: nat) \<and> (of_char c :: nat) \<le> hi)"

definition utf8_scan :: "char \<Rightarrow> string \<Rightarrow> nat \<times> bool" where
  "utf8_scan b bs =
     (let n = (of_char b :: nat)
      in if n < 128 then (0, True)
         else if n < 194 \<or> 244 < n then (0, False)
         else
           (let need = (if n < 224 then 1 else if n < 240 then 2 else (3::nat));
                lo = (if n = 224 then 160 else if n = 240 then 144 else 128);
                hi = (if n = 237 then 159 else if n = 244 then 143 else 191)
            in case bs of
                 [] \<Rightarrow> (0, False)
               | c1 # r1 \<Rightarrow>
                   if \<not> byte_in lo hi c1 then (0, False)
                   else if need = 1 then (1, True)
                   else
                     (case r1 of
                        [] \<Rightarrow> (1, False)
                      | c2 # r2 \<Rightarrow>
                          if \<not> byte_in 128 191 c2 then (1, False)
                          else if need = 2 then (2, True)
                          else
                            (case r2 of
                               [] \<Rightarrow> (2, False)
                             | c3 # r3 \<Rightarrow>
                                 if byte_in 128 191 c3 then (3, True) else (2, False)))))"

text \<open>\<open>bytes.decode('utf-8')\<close> raises \<open>UnicodeDecodeError\<close> unless the bytes are well formed.\<close>

function utf8_valid :: "string \<Rightarrow> bool" where
  "utf8_valid [] = True"
| "utf8_valid (b # bs) =
     (snd (utf8_scan b bs) \<and> utf8_valid (drop (fst (utf8_scan b bs)) bs))"
  by pat_completeness auto
termination
  by (relation "measure length") auto

text \<open>
  \<open>bytes.decode('utf-8', errors='replace')\<close>: every ill-formed sequence becomes one
  U+FFFD, which is the bytes EF BF BD.
\<close>

function utf8_replace :: "string \<Rightarrow> string" where
  "utf8_replace [] = []"
| "utf8_replace (b # bs) =
     (if snd (utf8_scan b bs) then b # take (fst (utf8_scan b bs)) bs
      else [char_of (239::nat), char_of (191::nat), char_of (189::nat)])
     @ utf8_replace (drop (fst (utf8_scan b bs)) bs)"
  by pat_completeness auto
termination
  by (relation "measure length") auto

text \<open>
  \<open>urllib.parse.unquote_to_bytes\<close>: \<open>%XX\<close> with two hexadecimal digits becomes that
  byte, every other character stays.
\<close>

definition hex_val :: "char \<Rightarrow> nat option" where
  "hex_val c =
     (let n = (of_char c :: nat)
      in if 48 \<le> n \<and> n \<le> 57 then Some (n - 48)
         else if 65 \<le> n \<and> n \<le> 70 then Some (n - 55)
         else if 97 \<le> n \<and> n \<le> 102 then Some (n - 87)
         else None)"

fun unquote_to_bytes :: "string \<Rightarrow> string" where
  "unquote_to_bytes (c # h1 # h2 # cs) =
     (if c = CHR ''%'' then
        (case (hex_val h1, hex_val h2) of
           (Some a, Some b) \<Rightarrow> char_of (16 * a + b) # unquote_to_bytes cs
         | _ \<Rightarrow> c # unquote_to_bytes (h1 # h2 # cs))
      else c # unquote_to_bytes (h1 # h2 # cs))"
| "unquote_to_bytes cs = cs"

text \<open>
  \<open>urllib.parse.unquote\<close> with its defaults: the text is cut into its runs of ASCII
  characters and the pieces between them; each ASCII run is unquoted to bytes, which are
  decoded as UTF-8 with \<open>errors='replace'\<close>, and the other pieces stay as they are.
\<close>

definition is_ascii :: "char \<Rightarrow> bool" where
  "is_ascii c = ((of_char c :: nat) < 128)"

function unquote :: "string \<Rightarrow> string" where
  "unquote [] = []"
| "unquote (c # cs) =
     (if is_ascii c then
        utf8_replace (unquote_to_bytes (c # takeWhile is_ascii cs))
          @ unquote (dropWhile is_ascii cs)
      else (c # takeWhile (\<lambda>x. \<not> is_ascii x) cs) @ unquote (dropWhile (\<lambda>x. \<not> is_ascii x) cs))"
  by pat_completeness auto
termination
  by (relation "measure length") (auto simp: length_dropWhile_le less_Suc_eq_le)

definition plus_to_space :: "string \<Rightarrow> string" where
  "plus_to_space s = map (\<lambda>c. if c = CHR ''+'' then CHR '' '' else c) s"

text \<open>
  \<open>urllib.parse.parse_qsl\<close> with its defaults: fields are cut at \<open>&\<close>, a field without
  \<open>=\<close> or with an empty value is dropped, names and values are decoded.
\<close>

definition parse_qsl :: "string \<Rightarrow> (string \<times> string) list" where
  "parse_qsl qs =
     concat (map (\<lambda>name_value.
        (case split1 (CHR ''='') name_value of
           [n, v] \<Rightarrow> (if v \<noteq> [] then [(unquote (plus_to_space n), unquote (plus_to_space v))]
                      else [])
         | _ \<Rightarrow> []))
       (split (CHR ''&'') qs))"

text \<open>\<open>parsed_result[name].append(value)\<close>, or \<open>parsed_result[name] = [value]\<close>.\<close>

definition append_value :: "(string, string list) dict \<Rightarrow> string \<times> string \<Rightarrow> (string, string list) dict" where
  "append_value d nv =
     (case dict_get d (fst nv) of
        Some vs \<Rightarrow> setitem (fst nv) (vs @ [snd nv]) d
      | None \<Rightarrow> setitem (fst nv) [snd nv] d)"

definition parse_qs :: "string \<Rightarrow> (string, string list) dict" where
  "parse_qs qs = foldl append_value [] (parse_qsl qs)"

text \<open>
  The comprehension \<open>{k: v[0] for k, v in parse_qs(...).items()}\<close>. Every list that
  \<open>parse_qs\<close> stores has an element, so \<open>v[0]\<close> is there.
\<close>

definition first_values :: "(string, string list) dict \<Rightarrow> (string, string) dict" where
  "first_values d = foldl (\<lambda>acc kv. setitem (fst kv) (hd (snd kv)) acc) [] d"

text \<open>The comprehension \<open>{k.lower(): v for k, v in handler.headers.items()}\<close>.\<close>

definition lower_keys :: "(string \<times> string) list \<Rightarrow> (string, string) dict" where
  "lower_keys items = foldl (\<lambda>acc kv. setitem (lower (fst kv)) (snd kv) acc) [] items"

definition get_or :: "('k, 'v) dict \<Rightarrow> 'k \<Rightarrow> 'v \<Rightarrow> 'v" where
  "get_or d k dflt = (case dict_get d k of Some v \<Rightarrow> v | None \<Rightarrow> dflt)"

text \<open>
  \<open>Request.__init__\<close>. It raises \<open>ValueError\<close> when the content-length header is not an
  integer, and \<open>UnicodeDecodeError\<close> when the body is not UTF-8; \<open>rfile.read(n)\<close> gives
  the first \<open>n\<close> bytes. The messages of the two exceptions are abridged.
\<close>

definition Request_query :: "string \<Rightarrow> (string, string) dict" where
  "Request_query p =
     (if CHR ''?'' \<in> set p then first_values (parse_qs (split1 (CHR ''?'') p ! 1)) else [])"

definition Request_body :: "handler_in \<Rightarrow> (string, string) dict \<Rightarrow> string \<Rightarrow> json" where
  "Request_body h hs body_data =
     (if contains (get_or hs ''content-type'' []) ''application/json'' then
        (case json_loads h body_data of Some j \<Rightarrow> j | None \<Rightarrow> JDict [])
      else if contains (get_or hs ''content-type'' []) ''application/x-www-form-urlencoded'' then
        JDict (map (\<lambda>kv. (fst kv, JStr (snd kv))) (first_values (parse_qs body_data)))
      else JDict [])"

definition Request_init :: "handler_in \<Rightarrow> exn + request" where
  "Request_init h =
     (let hs = lower_keys (header_items h);
          r = \<lparr>method = command h, path = hd (split (CHR ''?'') (raw_path h)), headers = hs,
               query = Request_query (raw_path h), body = JDict [], body_raw = []\<rparr>
      in case (case dict_get hs ''content-length'' of None \<Rightarrow> Some 0 | Some v \<Rightarrow> py_int v) of
           None \<Rightarrow> Inl (Exception ''ValueError'' ''invalid literal for int() with base 10'' None)
         | Some content_length \<Rightarrow>
             if content_length > 0 then
               (let body_data = take (nat content_length) (rfile h)
                in if \<not> utf8_valid body_data then
                     Inl (Exception ''UnicodeDecodeError''
                            ''utf-8 codec cannot decode the body'' None)
                   else Inr (r\<lparr>body := Request_body h hs body_data, body_raw := body_data\<rparr>))
             else Inr r)"

subsection \<open>The file system and \<open>os.path\<close> (POSIX)\<close>

text \<open>
  The part of the operating system the static-file code asks: the working directory,
  whether a path names something, whether it names a regular file, and the bytes that
  \<open>open(p, 'rb').read()\<close> gives, or the exception it raises.
\<close>

record filesystem =
  getcwd :: string
  path_exists :: "string \<Rightarrow> bool"
  path_isfile :: "string \<Rightarrow> bool"
  read_file :: "string \<Rightarrow> exn + string"

definition os_path_join :: "string \<Rightarrow> string \<Rightarrow> string" where
  "os_path_join a b =
     (if startswith b ''/'' then b
      else if a = [] \<or> endswith a ''/'' then a @ b
      else a @ ''/'' @ b)"

text \<open>The loop of \<open>posixpath.normpath\<close> over the components, \<open>new_comps\<close> in \<open>acc\<close>.\<close>

fun norm_comps :: "bool \<Rightarrow> string list \<Rightarrow> string list \<Rightarrow> string list" where
  "norm_comps initial_slashes acc [] = acc"
| "norm_comps initial_slashes acc (c # comps) =
     (if c = [] \<or> c = ''.'' then norm_comps initial_slashes acc comps
      else if c \<noteq> ''..'' \<or> (\<not> initial_slashes \<and> acc = []) \<or> (acc \<noteq> [] \<and> last acc = ''..'')
        then norm_comps initial_slashes (acc @ [c]) comps
      else if acc \<noteq> [] then norm_comps initial_slashes (butlast acc) comps
      else norm_comps initial_slashes acc comps)"

definition os_path_normpath :: "string \<Rightarrow> string" where
  "os_path_normpath p =
     (if p = [] then ''.''
      else
        (let initial_slashes =
               (if startswith p ''/'' then
                  (if startswith p ''//'' \<and> \<not> startswith p ''///'' then 2 else 1)
                else (0::nat));
             comps = norm_comps (initial_slashes \<noteq> 0) [] (split (CHR ''/'') p);
             q = replicate initial_slashes (CHR ''/'') @ join ''/'' comps
         in if q = [] then ''.'' else q))"

text \<open>\<open>os.path.abspath\<close>, in the working directory \<open>cwd\<close>.\<close>

definition os_path_abspath :: "string \<Rightarrow> string \<Rightarrow> string" where
  "os_path_abspath cwd p =
     os_path_normpath (if startswith p ''/'' then p else os_path_join cwd p)"

text \<open>\<open>os.path.splitext(p)[1]\<close>: from the last dot of the last component, leading dots apart.\<close>

definition splitext_ext :: "string \<Rightarrow> string" where
  "splitext_ext p =
     (let name = last (split (CHR ''/'') p);
          stem = dropWhile (\<lambda>c. c = CHR ''.'') name;
          pieces = split (CHR ''.'') stem
      in if length pieces < 2 then [] else CHR ''.'' # last pieces)"

subsection \<open>The middleware functions\<close>

text \<open>
  A chain element gets the request, the response state and the continuation \<open>next\<close>. The
  value a middleware returns is never inspected by its caller and is left out, as are the
  \<open>log\<close> calls, which print to standard output.
\<close>

type_synonym ('r, 'a) middleware =
  "'r request_scheme \<Rightarrow> 'a state_scheme \<Rightarrow> ('a state_scheme \<Rightarrow> 'a state_scheme outcome)
     \<Rightarrow> 'a state_scheme outcome"

definition logger_middleware :: "('r, 'a) middleware" where
  "logger_middleware req s next = next s"

definition truthy :: "string option \<Rightarrow> bool" where
  "truthy v = (case v of None \<Rightarrow> False | Some x \<Rightarrow> x \<noteq> [])"

definition auth_middleware :: "('r, 'a) middleware" where
  "auth_middleware req s next =
     (if startswith (path req) ''/protected'' then
        (let api_key = dict_get (headers req) ''x-api-key''
         in if \<not> truthy api_key then
              Return (send_json (JDict [(''error'', JStr ''Authentication required''),
                 (''message'', JStr ''Missing API key. Please provide X-API-Key header.'')])
                (status 401 s))
            else if api_key \<noteq> Some ''abc123'' then
              Return (send_json (JDict [(''error'', JStr ''Access denied''),
                 (''message'', JStr ''Invalid API key'')])
                (status 403 s))
            else next s)
      else next s)"

definition PUBLIC_DIR :: string where
  "PUBLIC_DIR = ''public''"

definition content_type_of :: "string \<Rightarrow> string" where
  "content_type_of file_path =
     (if endswith file_path ''.html'' then ''text/html''
      else if endswith file_path ''.css'' then ''text/css''
      else if endswith file_path ''.js'' then ''application/javascript''
      else if endswith file_path ''.json'' then ''application/json''
      else if endswith file_path ''.png'' then ''image/png''
      else if endswith file_path ''.jpg'' \<or> endswith file_path ''.jpeg'' then ''image/jpeg''
      else ''text/plain'')"

text \<open>
  No element of this function compares the path with the public directory. A failing
  read is caught and logged, and control falls through to \<open>next\<close>.
\<close>

definition static_files_middleware :: "filesystem \<Rightarrow> ('r, 'a) middleware" where
  "static_files_middleware fs req s next =
     (if method req = ''GET'' then
        (if path req = ''/'' \<or> startswith (path req) ''/public/'' then
           (let file_path =
                  (if path req = ''/'' then os_path_join PUBLIC_DIR ''index.html''
                   else os_path_join (getcwd fs) (drop 1 (path req)))
            in if path_exists fs file_path \<and> path_isfile fs file_path then
                 (case read_file fs file_path of
                    Inr content \<Rightarrow>
                      Return (send (Bytes content)
                        (set_header ''Content-Type'' (content_type_of file_path) (status 200 s)))
                  | Inl e \<Rightarrow> next s)
               else next s)
         else next s)
      else next s)"

definition about_page :: string where
  "about_page = ''\<newline><!DOCTYPE html>\<newline><html>\<newline><head>\<newline>    <title>About</title>\<newline>    <style>\<newline>        body { font-family: Arial, sans-serif; margin: 40px; line-height: 1.6; }\<newline>        h1 { color: #0066cc; }\<newline>    </style>\<newline></head>\<newline><body>\<newline>    <h1>About Page</h1>\<newline>    <p>This is the about page of our middleware demo.</p>\<newline>    <p><a href=\"/\">Back to Home</a></p>\<newline></body>\<newline></html>\<newline>''"

text \<open>\<open>now\<close> is the text of \<open>datetime.now().isoformat()\<close> at the time of the request.\<close>

definition routes_middleware :: "string \<Rightarrow> ('r, 'a) middleware" where
  "routes_middleware now req s next =
     (if method req = ''GET'' then
        (if path req = ''/about'' then Return (send (Str about_page) s)
         else if path req = ''/api'' then
           Return (send_json (JDict [(''message'', JStr ''API endpoint''),
              (''timestamp'', JStr now)]) s)
         else if path req = ''/protected'' then
           Return (send_json (JDict [(''message'', JStr ''You have accessed a protected endpoint''),
              (''timestamp'', JStr now)]) s)
         else next s)
      else if method req = ''POST'' then
        (if path req = ''/echo'' then
           Return (send_json (JDict [(''echo'', body req),
              (''headers'', JDict (map (\<lambda>kv. (fst kv, JStr (snd kv))) (headers req))),
              (''timestamp'', JStr now)]) s)
         else next s)
      else next s)"

subsection \<open>Dispatch\<close>

definition not_found_json :: "'r request_scheme \<Rightarrow> json" where
  "not_found_json req =
     JDict [(''error'', JStr ''Not Found''),
            (''message'', JStr (''No route found for '' @ method req @ '' '' @ path req))]"

text \<open>
  \<open>execute_middleware(index)\<close>: element \<open>index\<close> of the chain is called with a \<open>next\<close>
  that runs \<open>execute_middleware(index + 1)\<close> on the state of the moment it is called;
  past the end of the chain the 404 response is written.
\<close>

function execute_middleware ::
  "('r, 'a) middleware list \<Rightarrow> 'r request_scheme \<Rightarrow> nat \<Rightarrow> 'a state_scheme
     \<Rightarrow> 'a state_scheme outcome" where
  "execute_middleware chain req index s =
     (if index < length chain then
        (chain ! index) req s (\<lambda>s'. execute_middleware chain req (index + 1) s')
      else Return (send_json (not_found_json req) (status 404 s)))"
  by pat_completeness auto
termination
  by (relation "measure (\<lambda>(chain, req, index, s). length chain - index)") auto

declare execute_middleware.simps [simp del]

definition middleware_chain :: "filesystem \<Rightarrow> string \<Rightarrow> (unit, unit) middleware list" where
  "middleware_chain fs now =
     [logger_middleware, auth_middleware, static_files_middleware fs, routes_middleware now]"

text \<open>
  \<open>process_request\<close> with its chain as a parameter; the handler builds the request and
  a fresh response and runs the chain from index 0. The outcome keeps what the handler
  has written to the socket.
\<close>

definition process_request ::
  "(unit, unit) middleware list \<Rightarrow> handler_in \<Rightarrow> message list \<Rightarrow> message list outcome" where
  "process_request chain h w =
     (case Request_init h of
        Inl e \<Rightarrow> Raise e w
      | Inr req \<Rightarrow>
          (case execute_middleware chain req 0 (Response_init w) of
             Return s \<Rightarrow> Return (wire s)
           | Raise e s \<Rightarrow> Raise e (wire s)))"

text \<open>
  \<open>handle_error\<close> writes the 500 response straight to the handler. Its own
  \<open>try\<close>/\<open>except\<close> guards a failing socket write and has no branch here.
\<close>

definition handle_error :: "exn \<Rightarrow> message list \<Rightarrow> message list outcome" where
  "handle_error e w =
     Return (w @ [\<lparr>msg_status = 500,
                   msg_headers = [(''Content-Type'', ''application/json'')],
                   msg_body = Dumps (JDict [(''error'', JStr ''Internal Server Error''),
                                            (''message'', JStr (exn_msg e))])\<rparr>])"

text \<open>
  The body shared by \<open>do_GET\<close>, \<open>do_POST\<close>, \<open>do_PUT\<close> and \<open>do_DELETE\<close>:
  \<open>try: self.process_request() except Exception as e: self.handle_error(e)\<close>.
\<close>

definition do_METHOD ::
  "(unit, unit) middleware list \<Rightarrow> handler_in \<Rightarrow> message list \<Rightarrow> message list outcome" where
  "do_METHOD chain h w =
     (case process_request chain h w of
        Return w' \<Rightarrow> Return w'
      | Raise e w' \<Rightarrow> handle_error e w')"

definition do_GET :: "filesystem \<Rightarrow> string \<Rightarrow> handler_in \<Rightarrow> message list \<Rightarrow> message list outcome" where
  "do_GET fs now h w = do_METHOD (middleware_chain fs now) h w"

subsection \<open>Calls on a Response\<close>

text \<open>
  The methods of \<open>Response\<close> as calls with an outcome. None of them keeps or tests a
  "sent" flag, and none raises.
\<close>

datatype call =
    Status int
  | SetHeader string string
  | Json json
  | Send content
  | Redirect string

fun Response_call :: "call \<Rightarrow> 'a state_scheme \<Rightarrow> 'a state_scheme outcome" where
  "Response_call (Status code) s = Return (status code s)"
| "Response_call (SetHeader name v) s = Return (set_header name v s)"
| "Response_call (Json data) s = Return (send_json data s)"
| "Response_call (Send c) s = Return (send c s)"
| "Response_call (Redirect url) s = Return (redirect url s)"

text \<open>Calls one after the other; a raise ends the sequence.\<close>

fun Response_calls :: "call list \<Rightarrow> 'a state_scheme \<Rightarrow> 'a state_scheme outcome" where
  "Response_calls [] s = Return s"
| "Response_calls (c # cs) s =
     (case Response_call c s of
        Return s' \<Rightarrow> Response_calls cs s'
      | Raise e s' \<Rightarrow> Raise e s')"

fun is_mutation :: "call \<Rightarrow> bool" where
  "is_mutation (Status code) = True"
| "is_mutation (SetHeader name v) = True"
| "is_mutation c = False"

text \<open>A response has been flushed once something of it is on the socket.\<close>

definition flushed :: "'a state_scheme \<Rightarrow> bool" where
  "flushed s = (wire s \<noteq> [])"

definition fails_with :: "string \<Rightarrow> 's outcome \<Rightarrow> bool" where
  "fails_with name r = (case r of Return s \<Rightarrow> False | Raise e s \<Rightarrow> exn_name e = name)"

subsection \<open>Chain elements used as examples\<close>

text \<open>
  A middleware of the shape of \<open>logger_middleware\<close> (\<open>result = next()\<close>, work,
  \<open>return result\<close>) whose work after \<open>next\<close> is \<open>res.set_header(name, v)\<close>.
\<close>

definition header_after :: "string \<Rightarrow> string \<Rightarrow> ('r, 'a) middleware" where
  "header_after name v req s next =
     (case next s of
        Return s' \<Rightarrow> Return (set_header name v s')
      | Raise e s' \<Rightarrow> Raise e s')"

text \<open>
  A chain element that ends the chain without answering: it sets the status and a header
  of the response and returns, calling neither \<open>next\<close> nor \<open>send\<close>.
\<close>

definition deny_quiet :: "('r, 'a) middleware" where
  "deny_quiet req s next = Return (set_header ''WWW-Authenticate'' ''Basic'' (status 401 s))"

text \<open>The state that an outcome leaves.\<close>

definition state_of :: "'s outcome \<Rightarrow> 's" where
  "state_of r = (case r of Return s \<Rightarrow> s | Raise e s \<Rightarrow> s)"

text \<open>
  The handler \<open>test_error\<close> of middleware\_usage.py as a chain element:
  \<open>raise ValueError("This is a test error ...")\<close>.
\<close>

definition test_error :: "('r, 'a) middleware" where
  "test_error req s next =
     Raise (Exception ''ValueError''
       ''This is a test error to demonstrate error handling middleware'' None) s"

section \<open>The middleware utilities (examples/03-middleware/middleware\_utils.py)\<close>

text \<open>
  The utilities run on the request and response objects of the expressify package, whose
  source is not part of the examples. They are given the \<open>Response\<close> above, which has
  every method they call, and a request with the two further attributes they read.
\<close>

record xrequest = request +
  cookies :: "(string, string) dict"
  remote_addr :: string

text \<open>
  Modelled from the spec: \<open>Request.get_header\<close> of the expressify package is missing;
  the header mapping has case-insensitive keys, so the name is looked up in lower case.
\<close>

definition get_header :: "'r request_scheme \<Rightarrow> string \<Rightarrow> string option" where
  "get_header req name = dict_get (headers req) (lower name)"

subsection \<open>static\_files\<close>

definition CONTENT_TYPES :: "(string, string) dict" where
  "CONTENT_TYPES =
     [(''.html'', ''text/html''), (''.css'', ''text/css''), (''.js'', ''application/javascript''),
      (''.json'', ''application/json''), (''.png'', ''image/png''), (''.jpg'', ''image/jpeg''),
      (''.jpeg'', ''image/jpeg''), (''.gif'', ''image/gif''), (''.svg'', ''image/svg+xml''),
      (''.ico'', ''image/x-icon''), (''.txt'', ''text/plain'')]"

definition get_content_type :: "string \<Rightarrow> string" where
  "get_content_type file_path =
     get_or CONTENT_TYPES (lower (splitext_ext file_path)) ''application/octet-stream''"

text \<open>
  The middleware that \<open>static_files(directory, cache_control)\<close> returns. The traversal
  check compares the text of the normalised path with the text of the absolute root:
  \<open>norm_path.startswith(os.path.abspath(directory))\<close>; the file is then looked up and
  opened under the path as joined.
\<close>

definition static_files :: "string \<Rightarrow> string option \<Rightarrow> filesystem \<Rightarrow> ('r, 'a) middleware" where
  "static_files directory cache_control fs req s next =
     (if method req \<noteq> ''GET'' then next s
      else
        (let p = hd (split (CHR ''?'') (path req))
         in if startswith p ''/static/'' then
              (let file_path = os_path_join directory (drop 8 p);
                   norm_path = os_path_normpath file_path
               in if \<not> startswith norm_path (os_path_abspath (getcwd fs) directory) then
                    Return (send_json (JDict [(''error'', JStr ''Forbidden''),
                       (''message'', JStr ''Access denied'')]) (status 403 s))
                  else if \<not> path_exists fs file_path \<or> \<not> path_isfile fs file_path then next s
                  else
                    (let s1 = set_header ''Content-Type'' (get_content_type file_path) s;
                         s2 = (case cache_control of
                                 Some v \<Rightarrow> (if v \<noteq> [] then set_header ''Cache-Control'' v s1 else s1)
                               | None \<Rightarrow> s1)
                     in case read_file fs file_path of
                          Inr content \<Rightarrow> Return (send (Bytes content) s2)
                        | Inl e \<Rightarrow>
                            Return (send_json (JDict [(''error'', JStr ''Internal Server Error''),
                               (''message'', JStr (exn_msg e))]) (status 500 s2))))
            else next s))"

subsection \<open>rate\_limiter\<close>

text \<open>
  \<open>time.time()\<close> gives a float. A float is the real number it stands for; the two
  operations that the limiter applies to timestamps round their results, and are taken
  from the platform: \<open>float_sub a b\<close> is the float \<open>a - b\<close>, \<open>float_add a b\<close> the
  float \<open>a + b\<close>.
\<close>

record floats =
  float_sub :: "real \<Rightarrow> real \<Rightarrow> real"
  float_add :: "real \<Rightarrow> real \<Rightarrow> real"

text \<open>\<open>int(x)\<close> on a float: towards zero.\<close>

definition py_int_of_real :: "real \<Rightarrow> int" where
  "py_int_of_real x = (if 0 \<le> x then \<lfloor>x\<rfloor> else \<lceil>x\<rceil>)"

text \<open>\<open>req.get_header("x-forwarded-for") or req.remote_addr\<close>.\<close>

definition client_ip_of :: "'r xrequest_scheme \<Rightarrow> string" where
  "client_ip_of req =
     (case get_header req ''x-forwarded-for'' of
        Some v \<Rightarrow> (if v \<noteq> [] then v else remote_addr req)
      | None \<Rightarrow> remote_addr req)"

text \<open>
  \<open>clients\<close> is the dict in the closure of \<open>rate_limiter(max_requests, window_seconds)\<close>;
  no other code can reach it, so it is passed in and handed back beside the outcome.
  \<open>now\<close> is the value of \<open>time.time()\<close> at the call.
\<close>

definition rate_limiter ::
  "floats \<Rightarrow> int \<Rightarrow> int \<Rightarrow> real \<Rightarrow> (string, real list) dict \<Rightarrow> 'r xrequest_scheme
     \<Rightarrow> 'a state_scheme \<Rightarrow> ('a state_scheme \<Rightarrow> 'a state_scheme outcome)
     \<Rightarrow> (string, real list) dict \<times> 'a state_scheme outcome" where
  "rate_limiter fl max_requests window_seconds now clients req s next =
     (let client_ip = client_ip_of req;
          clients0 = (if dict_get clients client_ip = None then setitem client_ip [] clients
                      else clients);
          kept = filter (\<lambda>t. float_sub fl now t < real_of_int window_seconds)
                   (get_or clients0 client_ip []);
          clients1 = setitem client_ip kept clients0
      in if int (length kept) \<ge> max_requests then
           (clients1,
            Return (send_json (JDict [(''error'', JStr ''Too Many Requests''),
               (''message'', JStr (''Rate limit of '' @ str_int max_requests @ '' requests per ''
                  @ str_int window_seconds @ '' seconds exceeded''))])
              (status 429 s)))
         else
           (let clients2 = setitem client_ip (kept @ [now]) clients1;
                remaining = max_requests - int (length (kept @ [now]));
                s1 = set_header ''X-RateLimit-Limit'' (str_int max_requests) s;
                s2 = set_header ''X-RateLimit-Remaining'' (str_int remaining) s1;
                s3 = set_header ''X-RateLimit-Reset''
                       (str_int (py_int_of_real (float_add fl now (real_of_int window_seconds)))) s2
            in (clients2, next s3)))"

text \<open>
  One limiter serving the requests \<open>reqs\<close>, each with the time at which it arrives, a
  response of its own and the same rest of the chain; the result is the limiter's table
  afterwards.
\<close>

definition rate_limiter_run ::
  "floats \<Rightarrow> int \<Rightarrow> int \<Rightarrow> (state \<Rightarrow> state outcome) \<Rightarrow> ('r xrequest_scheme \<times> real) list
     \<Rightarrow> (string, real list) dict \<Rightarrow> (string, real list) dict" where
  "rate_limiter_run fl max_requests window_seconds next reqs clients =
     foldl (\<lambda>cl rt. fst (rate_limiter fl max_requests window_seconds (snd rt) cl (fst rt)
                           (Response_init []) next))
       clients reqs"

text \<open>
  Following the claim's words: the times at which a request of one client is admitted,
  when the requests of the client come at the times \<open>nows\<close> and a request is admitted
  exactly if fewer than \<open>max_requests\<close> of the requests admitted before it lie inside the
  window that ends at it.
\<close>

definition admitted_times :: "floats \<Rightarrow> int \<Rightarrow> int \<Rightarrow> real list \<Rightarrow> real list" where
  "admitted_times fl max_requests window_seconds nows =
     foldl (\<lambda>adm now.
        if int (length (filter (\<lambda>t. float_sub fl now t < real_of_int window_seconds) adm))
             < max_requests
        then adm @ [now] else adm)
       [] nows"

text \<open>
  Following the claim's words: the identity of the client of a request, the forwarded
  address when the request names one and the address of the peer otherwise; and the
  times of the requests of one client among \<open>reqs\<close>.
\<close>

definition client_identity :: "'r xrequest_scheme \<Rightarrow> string" where
  "client_identity req =
     (if truthy (dict_get (headers req) ''x-forwarded-for'')
      then get_or (headers req) ''x-forwarded-for'' []
      else remote_addr req)"

definition times_of :: "string \<Rightarrow> ('r xrequest_scheme \<times> real) list \<Rightarrow> real list" where
  "times_of c reqs = map snd (filter (\<lambda>rt. client_identity (fst rt) = c) reqs)"

subsection \<open>error\_handler\<close>

text \<open>\<open>format_exc\<close> is the text that \<open>traceback.format_exc()\<close> gives for the exception.\<close>

definition error_handler :: "bool \<Rightarrow> (exn \<Rightarrow> string) \<Rightarrow> ('r, 'a) middleware" where
  "error_handler include_stack_trace format_exc req s next =
     (case next s of
        Return s' \<Rightarrow> Return s'
      | Raise e s' \<Rightarrow>
          Return (send_json
            (JDict ([(''error'', JStr (exn_name e)), (''message'', JStr (exn_msg e))]
                    @ (if include_stack_trace then [(''stack'', JStr (format_exc e))] else [])))
            (status (case exn_status e of Some code \<Rightarrow> code | None \<Rightarrow> 500) s')))"

section \<open>Sessions (examples/09-sessions-cookies/app.py)\<close>

text \<open>
  The records of sessions.json and users.json. A time is a point on the integer line;
  \<open>expires_at\<close> holds the time its ISO text stands for.
\<close>

record session =
  sess_id :: string
  sess_user_id :: string
  created_at :: int
  expires_at :: int

record user_view =
  user_ident :: string
  username :: string
  name :: string
  email :: string
  user_created_at :: string

record user = user_view +
  password :: string

text \<open>
  The state of a request of this application: the response, the two files, and the
  attributes \<open>req.session\<close> and \<open>req.user\<close> that the middleware sets.
\<close>

record app_state = state +
  sessions_file :: "session list"
  users_file :: "user list"
  req_session :: "session option"
  req_user :: "user_view option"

definition get_session ::
  "int \<Rightarrow> string option \<Rightarrow> 'a app_state_scheme \<Rightarrow> session option \<times> 'a app_state_scheme" where
  "get_session now session_id s =
     (if \<not> truthy session_id then (None, s)
      else
        (case find (\<lambda>x. Some (sess_id x) = session_id) (sessions_file s) of
           None \<Rightarrow> (None, s)
         | Some found \<Rightarrow>
             if now > expires_at found then
               (None, s\<lparr>sessions_file :=
                         filter (\<lambda>x. Some (sess_id x) \<noteq> session_id) (sessions_file s)\<rparr>)
             else (Some found, s)))"

definition get_user_by_id :: "string \<Rightarrow> 'a app_state_scheme \<Rightarrow> user_view option" where
  "get_user_by_id uid s =
     (case find (\<lambda>u. user_ident u = uid) (users_file s) of
        Some u \<Rightarrow> Some (user_view.truncate u)
      | None \<Rightarrow> None)"

definition session_middleware ::
  "int \<Rightarrow> 'r xrequest_scheme \<Rightarrow> 'a app_state_scheme
     \<Rightarrow> ('a app_state_scheme \<Rightarrow> 'a app_state_scheme outcome) \<Rightarrow> 'a app_state_scheme outcome" where
  "session_middleware now req s next =
     (let session_id = dict_get (cookies req) ''session_id'';
          (found, s1) = get_session now session_id s;
          s2 = s1\<lparr>req_session := found\<rparr>;
          s3 = (case found of
                  Some se \<Rightarrow> s2\<lparr>req_user := get_user_by_id (sess_user_id se) s2\<rparr>
                | None \<Rightarrow> s2\<lparr>req_user := None\<rparr>)
      in next s3)"

section \<open>Notions of the specification and concrete inputs\<close>

text \<open>
  Following the spec's words: a path stays inside the configured root when, after
  normalisation, the components of the root are the first components of the path.
\<close>

definition path_components :: "string \<Rightarrow> string list" where
  "path_components p = filter (\<lambda>c. c \<noteq> []) (split (CHR ''/'') p)"

definition stays_inside :: "string \<Rightarrow> string \<Rightarrow> string \<Rightarrow> bool" where
  "stays_inside cwd directory file_path =
     prefix (path_components (os_path_abspath cwd directory))
            (path_components (os_path_abspath cwd file_path))"

text \<open>
  The guards under which an element of \<open>middleware_chain\<close> answers a request itself
  instead of calling \<open>next\<close>: the key check of \<open>auth_middleware\<close>, a file that
  \<open>static_files_middleware\<close> finds and reads, a route of \<open>routes_middleware\<close>.
\<close>

definition auth_stops :: "'r request_scheme \<Rightarrow> bool" where
  "auth_stops req =
     (startswith (path req) ''/protected'' \<and> dict_get (headers req) ''x-api-key'' \<noteq> Some ''abc123'')"

definition static_file_found :: "filesystem \<Rightarrow> 'r request_scheme \<Rightarrow> bool" where
  "static_file_found fs req =
     (method req = ''GET'' \<and> (path req = ''/'' \<or> startswith (path req) ''/public/'') \<and>
      (let file_path =
             (if path req = ''/'' then os_path_join PUBLIC_DIR ''index.html''
              else os_path_join (getcwd fs) (drop 1 (path req)))
       in path_exists fs file_path \<and> path_isfile fs file_path \<and> (case read_file fs file_path of Inr c \<Rightarrow> True | Inl e \<Rightarrow> False)))"

definition route_found :: "'r request_scheme \<Rightarrow> bool" where
  "route_found req =
     ((method req = ''GET'' \<and> path req \<in> {''/about'', ''/api'', ''/protected''}) \<or>
      (method req = ''POST'' \<and> path req = ''/echo''))"

text \<open>
  A file system without symbolic links: a path names what its absolute normal form
  names, among the directories \<open>dirs\<close> and the files \<open>files\<close> with their contents.
\<close>

definition lexical_fs :: "string \<Rightarrow> string list \<Rightarrow> (string \<times> string) list \<Rightarrow> filesystem" where
  "lexical_fs cwd dirs files =
     \<lparr>getcwd = cwd,
      path_exists = (\<lambda>p. os_path_abspath cwd p \<in> set dirs \<union> set (map fst files)),
      path_isfile = (\<lambda>p. os_path_abspath cwd p \<in> set (map fst files)),
      read_file = (\<lambda>p. case map_of files (os_path_abspath cwd p) of
                          Some c \<Rightarrow> Inr c
                        | None \<Rightarrow> Inl (Exception ''FileNotFoundError'' p None))\<rparr>"

definition demo_fs :: filesystem where
  "demo_fs =
     lexical_fs ''/srv/app''
       [''/srv'', ''/srv/app'', ''/srv/app/public'', ''/srv/public'', ''/srv/public_secret'']
       [(''/srv/app/public/index.html'', ''<h1>home</h1>''),
        (''/srv/app/secret.txt'', ''top secret''),
        (''/srv/public/site.css'', ''body {}''),
        (''/srv/public_secret/key.txt'', ''private key'')]"

definition wire_request :: "string \<Rightarrow> string \<Rightarrow> (string \<times> string) list \<Rightarrow> handler_in" where
  "wire_request m p hs =
     \<lparr>command = m, raw_path = p, header_items = hs, rfile = [], json_loads = (\<lambda>t. None)\<rparr>"

definition plain_request :: "string \<Rightarrow> string \<Rightarrow> request" where
  "plain_request m p =
     \<lparr>method = m, path = p, headers = [], query = [], body = JDict [], body_raw = []\<rparr>"

definition client_request :: "string \<Rightarrow> string \<Rightarrow> (string, string) dict \<Rightarrow> xrequest" where
  "client_request m p cs =
     \<lparr>method = m, path = p, headers = [], query = [], body = JDict [], body_raw = [],
      cookies = cs, remote_addr = ''10.0.0.7''\<rparr>"

text \<open>The values that a list of fields gives for one name, in the order of the fields.\<close>

definition values_of :: "string \<Rightarrow> (string \<times> string) list \<Rightarrow> string list" where
  "values_of k ps = map snd (filter (\<lambda>p. fst p = k) ps)"

text \<open>
  A request for \<open>GET /api/status\<close> with the given headers from the given peer address,
  and float operations that do not round, as on the small whole numbers of the examples.
\<close>

definition status_request :: "(string, string) dict \<Rightarrow> string \<Rightarrow> xrequest" where
  "status_request hs addr =
     \<lparr>method = ''GET'', path = ''/api/status'', headers = hs, query = [], body = JDict [],
      body_raw = [], cookies = [], remote_addr = addr\<rparr>"

definition exact_floats :: floats where
  "exact_floats = \<lparr>float_sub = (\<lambda>a b. a - b), float_add = (\<lambda>a b. a + b)\<rparr>"

definition demo_app_state :: app_state where
  "demo_app_state =
     \<lparr>status_code = 200, res_headers = [(''Content-Type'', ''text/html'')], wire = [],
      sessions_file = [\<lparr>sess_id = ''s1'', sess_user_id = ''1'', created_at = 0, expires_at = 100\<rparr>],
      users_file = [\<lparr>user_ident = ''1'', username = ''admin'', name = ''Admin User'',
                     email = ''admin@example.com'', user_created_at = ''2023-03-26'',
                     password = ''5e884898''\<rparr>],
      req_session = None, req_user = None\<rparr>"

section \<open>Facts about dicts and the chain\<close>

lemma map_of_setitem: "map_of (setitem k v d) = (map_of d)(k \<mapsto> v)"
  by (induction d) (auto simp: fun_eq_iff)

lemma keys_setitem: "fst ` set (setitem k v d) = insert k (fst ` set d)"
  by (induction d) auto

lemma distinct_setitem: "distinct (map fst d) \<Longrightarrow> distinct (map fst (setitem k v d))"
proof (induction d)
  case Nil
  then show ?case by simp
next
  case (Cons p d)
  have "fst ` set (setitem k v d) = insert k (fst ` set d)" by (rule keys_setitem)
  with Cons show ?case by auto
qed

lemma get_or_setitem: "get_or (setitem k v d) k x = v"
  by (simp add: get_or_def dict_get_def map_of_setitem)

text \<open>The chain from index \<open>Suc i\<close> of \<open>m # rest\<close> is the chain from index \<open>i\<close> of \<open>rest\<close>.\<close>

lemma execute_middleware_Cons:
  "execute_middleware (m # rest) req (Suc i) s = execute_middleware rest req i s"
proof (induction "length rest - i" arbitrary: i s)
  case 0
  then have "\<not> i < length rest" by simp
  then show ?case
    by (simp add: execute_middleware.simps [of "m # rest" req "Suc i" s]
        execute_middleware.simps [of rest req i s])
next
  case (Suc n)
  then have il: "i < length rest" by simp
  have "\<And>s'. execute_middleware (m # rest) req (Suc (Suc i)) s' =
           execute_middleware rest req (Suc i) s'"
    using Suc.hyps(1) [of "Suc i"] Suc.hyps(2) by simp
  then have ih: "execute_middleware (m # rest) req (Suc (Suc i)) =
                 execute_middleware rest req (Suc i)"
    by (rule ext)
  show ?case
    using il ih
    by (simp add: execute_middleware.simps [of "m # rest" req "Suc i" s]
        execute_middleware.simps [of rest req i s])
qed

lemma execute_middleware_head:
  "execute_middleware (m # rest) req 0 s = m req s (\<lambda>s'. execute_middleware rest req 0 s')"
proof -
  have "(\<lambda>s'. execute_middleware (m # rest) req (Suc 0) s') =
        (\<lambda>s'. execute_middleware rest req 0 s')"
    by (rule ext) (rule execute_middleware_Cons)
  then show ?thesis
    by (simp add: execute_middleware.simps [of "m # rest" req 0 s])
qed

lemma execute_middleware_end:
  "execute_middleware [] req 0 s = Return (send_json (not_found_json req) (status 404 s))"
  by (simp add: execute_middleware.simps [of "[]" req 0 s])

lemma take_eq_length:
  assumes "i < length chain" and "take (Suc i) chain' = take (Suc i) chain"
  shows "i < length chain'"
proof -
  have "length (take (Suc i) chain') = length (take (Suc i) chain)"
    using assms(2) by simp
  then have "min (length chain') (Suc i) = min (length chain) (Suc i)" by simp
  with assms(1) show ?thesis by simp
qed

lemma take_eq_nth:
  assumes "j \<le> i" and "take (Suc i) chain' = take (Suc i) chain"
  shows "chain' ! j = chain ! j"
proof -
  have "take (Suc i) chain' ! j = take (Suc i) chain ! j" using assms(2) by simp
  with assms(1) show ?thesis by simp
qed

text \<open>
  Two chains with the same first \<open>i + 1\<close> elements run alike when element \<open>i\<close> has no
  use for its continuation: by induction on the distance to \<open>i\<close>.
\<close>

lemma execute_middleware_agree:
  assumes i: "i < length chain"
    and tk: "take (Suc i) chain' = take (Suc i) chain"
    and stop: "\<forall>s k k'. (chain ! i) req s k = (chain ! i) req s k'"
  shows "j \<le> i \<Longrightarrow> execute_middleware chain req j s = execute_middleware chain' req j s"
proof (induction "i - j" arbitrary: j s)
  case 0
  then have ji: "j = i" by simp
  have len: "i < length chain'" using i tk by (rule take_eq_length)
  have same: "chain' ! i = chain ! i" by (rule take_eq_nth [OF le_refl tk])
  have "execute_middleware chain req i s =
          (chain ! i) req s (\<lambda>s'. execute_middleware chain req (i + 1) s')"
    using i by (simp add: execute_middleware.simps [of chain req i s])
  also have "\<dots> = (chain ! i) req s (\<lambda>s'. execute_middleware chain' req (i + 1) s')"
    using stop by blast
  also have "\<dots> = execute_middleware chain' req i s"
    using len same by (simp add: execute_middleware.simps [of chain' req i s])
  finally show ?case by (simp add: ji)
next
  case (Suc n)
  then have jl: "j < i" by simp
  with i have jc: "j < length chain" by simp
  have same: "chain' ! j = chain ! j" by (rule take_eq_nth [OF less_imp_le [OF jl] tk])
  have "i < length chain'" using i tk by (rule take_eq_length)
  with jl have len: "j < length chain'" by simp
  have "\<And>s'. execute_middleware chain req (Suc j) s' = execute_middleware chain' req (Suc j) s'"
    using Suc.hyps(1) [of "Suc j"] Suc.hyps(2) jl by simp
  then have ih: "execute_middleware chain req (Suc j) = execute_middleware chain' req (Suc j)"
    by (rule ext)
  show ?case
    using jc len same ih
    by (simp add: execute_middleware.simps [of chain req j s]
        execute_middleware.simps [of chain' req j s])
qed

section \<open>Static files and path traversal\<close>

text \<open>
  Claim C1: for every GET request that the static-file middleware handles, a target path
  that leaves the configured root after normalisation is rejected with 403 and never
  read, and a file is served only from inside the root.

  Both static-file functions break this. \<open>static_files\<close> with the root \<open>/srv/public\<close>
  and the request path \<open>/static/../public_secret/key.txt\<close> joins the two to
  \<open>/srv/public/../public_secret/key.txt\<close>, whose normal form
  \<open>/srv/public_secret/key.txt\<close> starts with the text \<open>/srv/public\<close>: the check lets
  it pass and the file of the sibling directory is sent with status 200.
  \<open>static_files_middleware\<close> has no check and sends \<open>/srv/app/secret.txt\<close> for the
  request path \<open>/public/../secret.txt\<close>. Neither target stays inside its root.
\<close>

theorem static_files_serves_outside_root:
  "static_files ''/srv/public'' None demo_fs
      (client_request ''GET'' ''/static/../public_secret/key.txt'' []) (Response_init []) Return
     = Return \<lparr>status_code = 200, res_headers = [(''Content-Type'', ''text/plain'')],
         wire = [\<lparr>msg_status = 200, msg_headers = [(''Content-Type'', ''text/plain'')],
                  msg_body = Bytes ''private key''\<rparr>]\<rparr>
   \<and> \<not> stays_inside (getcwd demo_fs) ''/srv/public''
         (os_path_join ''/srv/public'' ''../public_secret/key.txt'')
   \<and> static_files_middleware demo_fs (plain_request ''GET'' ''/public/../secret.txt'')
         (Response_init []) Return
     = Return \<lparr>status_code = 200, res_headers = [(''Content-Type'', ''text/plain'')],
         wire = [\<lparr>msg_status = 200, msg_headers = [(''Content-Type'', ''text/plain'')],
                  msg_body = Bytes ''top secret''\<rparr>]\<rparr>
   \<and> \<not> stays_inside (getcwd demo_fs) PUBLIC_DIR
         (os_path_join (getcwd demo_fs) ''public/../secret.txt'')"
  by code_simp

text \<open>What the two clients find on the socket: one response each, status 200, the file.\<close>

theorem static_files_serves_outside_root_witness:
  "(\<exists>s. static_files ''/srv/public'' None demo_fs
           (client_request ''GET'' ''/static/../public_secret/key.txt'' []) (Response_init []) Return
         = Return s
       \<and> map msg_status (wire s) = [200] \<and> map msg_body (wire s) = [Bytes ''private key''])
   \<and> (\<exists>s. static_files_middleware demo_fs (plain_request ''GET'' ''/public/../secret.txt'')
           (Response_init []) Return
         = Return s
       \<and> map msg_status (wire s) = [200] \<and> map msg_body (wire s) = [Bytes ''top secret''])"
  using static_files_serves_outside_root by simp

section \<open>Errors at the dispatch boundary\<close>

text \<open>
  Claim C2: when a chain element raises during a request, the exception is caught once,
  at the dispatch boundary, and turned into a response, the generic 500 response when no
  error-handling stage is in the chain; it never reaches the transport.

  Whatever the chain and the request, \<open>do_METHOD\<close> returns. When the chain raises \<open>e\<close>
  it has written exactly one more response, status 500 with the message of \<open>e\<close>, after
  what was on the socket at the raise. An \<open>error_handler\<close> stage in the chain turns an
  exception of the rest of the chain into a response itself, with status 500 unless the
  exception carries a \<open>status_code\<close>.
\<close>

theorem error_caught_at_boundary:
  "(\<exists>w'. do_METHOD chain h w = Return w')
   \<and> (Request_init h = Inr req \<and> execute_middleware chain req 0 (Response_init w) = Raise e s1 \<longrightarrow>
        do_METHOD chain h w =
          Return (wire s1 @ [\<lparr>msg_status = 500,
             msg_headers = [(''Content-Type'', ''application/json'')],
             msg_body = Dumps (JDict [(''error'', JStr ''Internal Server Error''),
                                      (''message'', JStr (exn_msg e))])\<rparr>]))
   \<and> (next s = Raise e s2 \<longrightarrow>
        error_handler include_stack_trace format_exc req' s next =
          Return (send_json
            (JDict ([(''error'', JStr (exn_name e)), (''message'', JStr (exn_msg e))]
                    @ (if include_stack_trace then [(''stack'', JStr (format_exc e))] else [])))
            (status (case exn_status e of Some code \<Rightarrow> code | None \<Rightarrow> 500) s2)))"
  by (auto simp: do_METHOD_def process_request_def handle_error_def error_handler_def
      split: sum.splits outcome.splits)

theorem error_caught_at_boundary_witness:
  "Request_init (wire_request ''GET'' ''/test-error'' []) = Inr (plain_request ''GET'' ''/test-error'')
   \<and> execute_middleware [logger_middleware, test_error] (plain_request ''GET'' ''/test-error'') 0
         (Response_init [])
       = Raise (Exception ''ValueError''
                  ''This is a test error to demonstrate error handling middleware'' None)
           (Response_init [])
   \<and> do_METHOD [logger_middleware, test_error] (wire_request ''GET'' ''/test-error'' []) []
       = Return [\<lparr>msg_status = 500,
             msg_headers = [(''Content-Type'', ''application/json'')],
             msg_body = Dumps (JDict [(''error'', JStr ''Internal Server Error''),
                (''message'', JStr ''This is a test error to demonstrate error handling middleware'')])\<rparr>]
   \<and> error_handler False (\<lambda>e. []) (plain_request ''GET'' ''/test-error'') (Response_init [])
         (\<lambda>s. test_error (plain_request ''GET'' ''/test-error'') s Return)
       = Return \<lparr>status_code = 500, res_headers = [(''Content-Type'', ''application/json'')],
           wire = [\<lparr>msg_status = 500,
             msg_headers = [(''Content-Type'', ''application/json'')],
             msg_body = Dumps (JDict [(''error'', JStr ''ValueError''),
                (''message'', JStr ''This is a test error to demonstrate error handling middleware'')])\<rparr>]\<rparr>"
proof -
  let ?e = "Exception ''ValueError''
              ''This is a test error to demonstrate error handling middleware'' None"
  let ?req = "plain_request ''GET'' ''/test-error''"
  have h1: "Request_init (wire_request ''GET'' ''/test-error'' []) = Inr ?req"
    by code_simp
  have h2: "execute_middleware [logger_middleware, test_error] ?req 0 (Response_init [])
              = Raise ?e (Response_init [])"
    by code_simp
  have h3: "(\<lambda>s. test_error ?req s Return) (Response_init []) = Raise ?e (Response_init [])"
    by (simp add: test_error_def)
  have w: "wire (Response_init []) = []" by (simp add: Response_init_def)
  have v: "send_json (JDict [(''error'', JStr ''ValueError''),
                (''message'', JStr ''This is a test error to demonstrate error handling middleware'')])
             (status 500 (Response_init []))
       = \<lparr>status_code = 500, res_headers = [(''Content-Type'', ''application/json'')],
           wire = [\<lparr>msg_status = 500,
             msg_headers = [(''Content-Type'', ''application/json'')],
             msg_body = Dumps (JDict [(''error'', JStr ''ValueError''),
                (''message'', JStr ''This is a test error to demonstrate error handling middleware'')])\<rparr>]\<rparr>"
    by code_simp
  from error_caught_at_boundary [of "[logger_middleware, test_error]"
      "wire_request ''GET'' ''/test-error'' []" "[]" ?req ?e "Response_init []"
      "\<lambda>s. test_error ?req s Return" "Response_init []" "Response_init []"
      False "\<lambda>e. []" ?req]
    h1 h2 h3 w v
  show ?thesis by simp
qed

section \<open>Ending the chain\<close>

text \<open>
  Claim C3: in every dispatch and at every position \<open>i\<close> of the chain, the elements after
  position \<open>i\<close>, the terminal handler among them, run only if element \<open>i\<close> calls its
  continuation; an element that returns without calling it ends the chain there, and the
  response state of that moment is what is sent.

  The last part fails. Nothing writes the \<open>Response\<close> to the socket after the chain has
  run. \<open>deny_quiet\<close> sets status 401 and a header and returns without \<open>next\<close>: the
  chain ends there, the response object holds the status and the header, and the socket
  gets nothing.
\<close>

theorem unsent_state_not_sent:
  "execute_middleware [logger_middleware, deny_quiet, routes_middleware ''t'']
      (plain_request ''GET'' ''/about'') 0 (Response_init [])
     = Return \<lparr>status_code = 401,
               res_headers = [(''Content-Type'', ''text/html''), (''WWW-Authenticate'', ''Basic'')],
               wire = []\<rparr>
   \<and> do_METHOD [logger_middleware, deny_quiet, routes_middleware ''t'']
        (wire_request ''GET'' ''/about'' []) [] = Return []"
  by code_simp

text \<open>
  Claim C3 as amended: in every dispatch and at every position \<open>i\<close> of the chain, the
  elements after position \<open>i\<close>, the terminal handler among them, run only if element \<open>i\<close>
  calls its continuation; an element that returns without calling it ends the chain
  there, and what the chain elements have sent by then is all that is sent: the handler
  writes nothing after the chain, so response state that was set and never passed to
  \<open>send\<close> does not reach the client.

  An element that does not call \<open>next\<close> for the request gives the same outcome whatever
  continuation it is handed. With such an element at position \<open>i\<close>, every chain that
  agrees with the chain up to and including \<open>i\<close> gives the very same outcome: nothing
  behind \<open>i\<close>, nor the 404 at the end of the chain, takes part. The dispatch from
  position \<open>i\<close> on is what element \<open>i\<close> alone leaves; if that element writes nothing,
  nothing is written. When a chain returns, the handler is left with exactly what the
  chain has put on the socket.
\<close>

theorem chain_ends_without_next:
  assumes "i < length chain"
    and "\<forall>s k k'. (chain ! i) req s k = (chain ! i) req s k'"
    and "take (Suc i) chain' = take (Suc i) chain"
  shows "execute_middleware chain' req 0 s = execute_middleware chain req 0 s
       \<and> execute_middleware chain req i s = (chain ! i) req s Return
       \<and> ((\<forall>s k. wire (state_of ((chain ! i) req s k)) = wire s) \<longrightarrow>
            wire (state_of (execute_middleware chain req i s)) = wire s)
       \<and> (Request_init h = Inr rq \<and> execute_middleware c rq 0 (Response_init w) = Return s' \<longrightarrow>
            do_METHOD c h w = Return (wire s'))"
proof (intro conjI impI)
  show "execute_middleware chain' req 0 s = execute_middleware chain req 0 s"
    using execute_middleware_agree [OF assms(1) assms(3) assms(2), of 0 s] by simp
  have "execute_middleware chain req i s =
          (chain ! i) req s (\<lambda>s'. execute_middleware chain req (i + 1) s')"
    using assms(1) by (simp add: execute_middleware.simps [of chain req i s])
  also have "\<dots> = (chain ! i) req s Return"
    using assms(2) by blast
  finally show at_i: "execute_middleware chain req i s = (chain ! i) req s Return" .
  show "wire (state_of (execute_middleware chain req i s)) = wire s"
    if "\<forall>s k. wire (state_of ((chain ! i) req s k)) = wire s"
    using that by (simp add: at_i)
  show "do_METHOD c h w = Return (wire s')"
    if "Request_init h = Inr rq \<and> execute_middleware c rq 0 (Response_init w) = Return s'"
    using that by (simp add: do_METHOD_def process_request_def)
qed

text \<open>
  \<open>auth_middleware\<close> at position 1 of the server's chain, for \<open>GET /protected\<close> without
  a key: the 401 response that it sends is all there is, also when a raising handler
  follows. \<open>deny_quiet\<close> at position 1, for \<open>GET /about\<close>: nothing is sent.
\<close>

theorem chain_ends_without_next_witness:
  "1 < length (middleware_chain demo_fs ''t'')
   \<and> (\<forall>s k k'. (middleware_chain demo_fs ''t'' ! 1) (plain_request ''GET'' ''/protected'') s k
                = (middleware_chain demo_fs ''t'' ! 1) (plain_request ''GET'' ''/protected'') s k')
   \<and> take (Suc 1) [logger_middleware, auth_middleware, test_error]
       = take (Suc 1) (middleware_chain demo_fs ''t'')
   \<and> execute_middleware [logger_middleware, auth_middleware, test_error]
        (plain_request ''GET'' ''/protected'') 0 (Response_init [])
       = execute_middleware (middleware_chain demo_fs ''t'')
           (plain_request ''GET'' ''/protected'') 0 (Response_init [])
   \<and> execute_middleware (middleware_chain demo_fs ''t'')
        (plain_request ''GET'' ''/protected'') 1 (Response_init [])
       = Return \<lparr>status_code = 401, res_headers = [(''Content-Type'', ''application/json'')],
           wire = [\<lparr>msg_status = 401, msg_headers = [(''Content-Type'', ''application/json'')],
                    msg_body = Dumps (JDict [(''error'', JStr ''Authentication required''),
                      (''message'', JStr ''Missing API key. Please provide X-API-Key header.'')])\<rparr>]\<rparr>
   \<and> wire (state_of (execute_middleware [logger_middleware, deny_quiet, routes_middleware ''t'']
        (plain_request ''GET'' ''/about'') 1 (Response_init []))) = []
   \<and> do_METHOD [logger_middleware, deny_quiet, routes_middleware ''t'']
        (wire_request ''GET'' ''/about'' []) [] = Return []"
proof -
  let ?req = "plain_request ''GET'' ''/protected''"
  let ?about = "plain_request ''GET'' ''/about''"
  let ?quiet = "[logger_middleware, deny_quiet, routes_middleware ''t''] :: (unit, unit) middleware list"
  let ?left = "\<lparr>status_code = 401,
               res_headers = [(''Content-Type'', ''text/html''), (''WWW-Authenticate'', ''Basic'')],
               wire = []\<rparr>"
  have h1: "1 < length (middleware_chain demo_fs ''t'')"
    by (simp add: middleware_chain_def)
  have h2: "\<forall>s k k'. (middleware_chain demo_fs ''t'' ! 1) ?req s k
                     = (middleware_chain demo_fs ''t'' ! 1) ?req s k'"
    by (simp add: middleware_chain_def auth_middleware_def plain_request_def startswith_def
        dict_get_def truthy_def)
  have h3: "take (Suc 1) [logger_middleware, auth_middleware, test_error]
              = take (Suc 1) (middleware_chain demo_fs ''t'')"
    by (simp add: middleware_chain_def)
  have v: "(middleware_chain demo_fs ''t'' ! 1) ?req (Response_init []) Return
     = Return \<lparr>status_code = 401, res_headers = [(''Content-Type'', ''application/json'')],
         wire = [\<lparr>msg_status = 401, msg_headers = [(''Content-Type'', ''application/json'')],
                  msg_body = Dumps (JDict [(''error'', JStr ''Authentication required''),
                    (''message'', JStr ''Missing API key. Please provide X-API-Key header.'')])\<rparr>]\<rparr>"
    by code_simp
  have q1: "1 < length ?quiet" by simp
  have q2: "\<forall>s k k'. (?quiet ! 1) ?about s k = (?quiet ! 1) ?about s k'"
    by (simp add: deny_quiet_def)
  have q3: "take (Suc 1) ?quiet = take (Suc 1) ?quiet" by simp
  have q4: "\<forall>s k. wire (state_of ((?quiet ! 1) ?about s k)) = wire s"
    by (simp add: deny_quiet_def state_of_def set_header_def status_def)
  have q5: "Request_init (wire_request ''GET'' ''/about'' []) = Inr ?about" by code_simp
  have q6: "execute_middleware ?quiet ?about 0 (Response_init []) = Return ?left" by code_simp
  have w: "wire (Response_init []) = []" "wire ?left = []" by (simp_all add: Response_init_def)
  from chain_ends_without_next [OF h1 h2 h3, of "Response_init []"] h1 h2 h3 v
  have a: "execute_middleware [logger_middleware, auth_middleware, test_error] ?req 0 (Response_init [])
       = execute_middleware (middleware_chain demo_fs ''t'') ?req 0 (Response_init [])"
    and b: "execute_middleware (middleware_chain demo_fs ''t'') ?req 1 (Response_init [])
       = Return \<lparr>status_code = 401, res_headers = [(''Content-Type'', ''application/json'')],
           wire = [\<lparr>msg_status = 401, msg_headers = [(''Content-Type'', ''application/json'')],
                    msg_body = Dumps (JDict [(''error'', JStr ''Authentication required''),
                      (''message'', JStr ''Missing API key. Please provide X-API-Key header.'')])\<rparr>]\<rparr>"
    by simp_all
  from chain_ends_without_next [OF q1 q2 q3, of "Response_init []"
      "wire_request ''GET'' ''/about'' []" ?about ?quiet "[]" ?left] q4 q5 q6 w
  have c: "wire (state_of (execute_middleware ?quiet ?about 1 (Response_init []))) = []"
    and d: "do_METHOD ?quiet (wire_request ''GET'' ''/about'' []) [] = Return []"
    by simp_all
  from h1 h2 h3 a b c d show ?thesis by blast
qed

section \<open>The end of the chain\<close>

lemma pass_logger: "logger_middleware req s k = k s"
  by (simp add: logger_middleware_def)

lemma pass_auth: "\<not> auth_stops req \<Longrightarrow> auth_middleware req s k = k s"
  by (auto simp: auth_middleware_def auth_stops_def Let_def truthy_def)

lemma pass_static: "\<not> static_file_found fs req \<Longrightarrow> static_files_middleware fs req s k = k s"
  by (auto simp: static_files_middleware_def static_file_found_def Let_def split: sum.splits)

lemma pass_routes: "\<not> route_found req \<Longrightarrow> routes_middleware now req s k = k s"
  by (auto simp: routes_middleware_def route_found_def)

text \<open>
  Claim C4: a request whose path and method match no route gets, once the whole chain
  is exhausted, the default 404 response, unless a registered catch-all route answered
  it first.

  The chain is exhausted when every element has called \<open>next\<close>: the key check of
  \<open>auth_middleware\<close> lets the request through, \<open>static_files_middleware\<close> finds no file
  and \<open>routes_middleware\<close> has no route for it. Then the handler writes one response and
  no more: status 404, a JSON body that names the method and the path.
\<close>

theorem unmatched_request_gets_404:
  assumes "Request_init h = Inr req"
    and "\<not> auth_stops req" and "\<not> static_file_found fs req" and "\<not> route_found req"
  shows "do_GET fs now h w =
    Return (w @ [\<lparr>msg_status = 404, msg_headers = [(''Content-Type'', ''application/json'')],
                   msg_body = Dumps (JDict [(''error'', JStr ''Not Found''),
                      (''message'', JStr (''No route found for '' @ method req @ '' '' @ path req))])\<rparr>])"
proof -
  have "execute_middleware (middleware_chain fs now) req 0 (Response_init w)
          = Return (send_json (not_found_json req) (status 404 (Response_init w)))"
    using assms(2-4)
    by (simp add: middleware_chain_def execute_middleware_head execute_middleware_end
        pass_logger pass_auth pass_static pass_routes)
  then show ?thesis
    using assms(1)
    by (simp add: do_GET_def do_METHOD_def process_request_def send_json_def send_def
        set_header_def status_def Response_init_def not_found_json_def)
qed

theorem unmatched_request_gets_404_witness:
  "Request_init (wire_request ''GET'' ''/nope'' []) = Inr (plain_request ''GET'' ''/nope'')
   \<and> \<not> auth_stops (plain_request ''GET'' ''/nope'')
   \<and> \<not> static_file_found demo_fs (plain_request ''GET'' ''/nope'')
   \<and> \<not> route_found (plain_request ''GET'' ''/nope'')
   \<and> do_GET demo_fs ''t'' (wire_request ''GET'' ''/nope'' []) [] =
       Return [\<lparr>msg_status = 404, msg_headers = [(''Content-Type'', ''application/json'')],
                 msg_body = Dumps (JDict [(''error'', JStr ''Not Found''),
                    (''message'', JStr ''No route found for GET /nope'')])\<rparr>]"
proof -
  let ?req = "plain_request ''GET'' ''/nope''"
  have h1: "Request_init (wire_request ''GET'' ''/nope'' []) = Inr ?req" by code_simp
  have h2: "\<not> auth_stops ?req" by code_simp
  have h3: "\<not> static_file_found demo_fs ?req" by code_simp
  have h4: "\<not> route_found ?req" by code_simp
  have p: "method ?req = ''GET''" "path ?req = ''/nope''" by (simp_all add: plain_request_def)
  from unmatched_request_gets_404 [OF h1 h2 h3 h4, of "''t''" "[]"] h1 h2 h3 h4 p
  show ?thesis by simp
qed

section \<open>The response after it was sent\<close>

lemma Response_calls_append:
  "Response_calls (cs @ ds) s =
     (case Response_calls cs s of
        Return s' \<Rightarrow> Response_calls ds s'
      | Raise e s' \<Rightarrow> Raise e s')"
  by (induction cs arbitrary: s) (auto split: outcome.split)

lemma Response_call_mutation:
  "is_mutation c \<Longrightarrow> \<exists>s'. Response_call c s = Return s' \<and> wire s' = wire s"
  by (cases c) (auto simp: status_def set_header_def)

lemma Response_calls_mutations:
  "list_all is_mutation cs \<Longrightarrow> \<exists>s'. Response_calls cs s = Return s' \<and> wire s' = wire s"
proof (induction cs arbitrary: s)
  case Nil
  then show ?case by simp
next
  case (Cons c cs)
  then obtain s1 where s1: "Response_call c s = Return s1" "wire s1 = wire s"
    using Response_call_mutation [of c s] by auto
  from Cons obtain s2 where "Response_calls cs s1 = Return s2" "wire s2 = wire s1"
    by fastforce
  with s1 show ?case by simp
qed

text \<open>
  Claim C5: once the body of a response has been flushed to the transport, every later
  mutation of its status or headers fails with AlreadySentError and never succeeds
  silently.

  The code has no such error. After \<open>send\<close> has written a response with status 200,
  \<open>status(404)\<close> and \<open>set_header\<close> return as before and change the fields of the
  object; what is on the socket stays as it was.
\<close>

theorem mutation_after_send_example:
  "Response_calls [Send (Str ''hello''), Status 404, SetHeader ''X-Late'' ''1''] (Response_init [])
     = Return \<lparr>status_code = 404,
               res_headers = [(''Content-Type'', ''text/html''), (''X-Late'', ''1'')],
               wire = [\<lparr>msg_status = 200, msg_headers = [(''Content-Type'', ''text/html'')],
                        msg_body = Str ''hello''\<rparr>]\<rparr>
   \<and> flushed (send (Str ''hello'') (Response_init []))
   \<and> \<not> fails_with ''AlreadySentError''
         (Response_calls [Status 404] (send (Str ''hello'') (Response_init [])))
   \<and> \<not> fails_with ''AlreadySentError''
         (Response_calls [SetHeader ''X-Late'' ''1''] (send (Str ''hello'') (Response_init [])))"
  by code_simp

text \<open>
  Claim C5 as amended: \<open>Response\<close> keeps no record of having been sent. Any sequence of
  \<open>status\<close> and \<open>set_header\<close> calls, after a flush as before one, returns without an
  error, leaves everything already written to the transport untouched, and leaves the
  object with the status or the header of its last call.
\<close>

theorem mutation_after_send:
  assumes "list_all is_mutation cs"
  shows "\<exists>s'. Response_calls cs s = Return s' \<and> wire s' = wire s \<and> (flushed s' \<longleftrightarrow> flushed s)
      \<and> (\<forall>code. cs \<noteq> [] \<and> last cs = Status code \<longrightarrow> status_code s' = code)
      \<and> (\<forall>n v. cs \<noteq> [] \<and> last cs = SetHeader n v \<longrightarrow> dict_get (res_headers s') n = Some v)"
proof (cases cs rule: rev_cases)
  case Nil
  then show ?thesis by (simp add: flushed_def)
next
  case (snoc ds c)
  with assms have "list_all is_mutation ds" and c: "is_mutation c" by simp_all
  then obtain s1 where s1: "Response_calls ds s = Return s1" "wire s1 = wire s"
    using Response_calls_mutations by blast
  have eq: "Response_calls (ds @ [c]) s = Response_call c s1"
    by (simp add: Response_calls_append s1 split: outcome.split)
  show ?thesis
  proof (cases c)
    case (Status code)
    with eq s1 show ?thesis
      by (simp add: snoc flushed_def status_def)
  next
    case (SetHeader n v)
    with eq s1 show ?thesis
      by (simp add: snoc flushed_def set_header_def dict_get_def map_of_setitem)
  next
    case (Json d)
    with c show ?thesis by simp
  next
    case (Send d)
    with c show ?thesis by simp
  next
    case (Redirect u)
    with c show ?thesis by simp
  qed
qed

theorem mutation_after_send_witness:
  "list_all is_mutation [Status 404, SetHeader ''X-Late'' ''1'']
   \<and> flushed (send (Str ''hello'') (Response_init []))
   \<and> (\<exists>s'. Response_calls [Status 404, SetHeader ''X-Late'' ''1'']
               (send (Str ''hello'') (Response_init [])) = Return s'
         \<and> wire s' = wire (send (Str ''hello'') (Response_init []))
         \<and> dict_get (res_headers s') ''X-Late'' = Some ''1'')"
proof -
  have h: "list_all is_mutation [Status 404, SetHeader ''X-Late'' ''1'']" by simp
  have f: "flushed (send (Str ''hello'') (Response_init []))" by code_simp
  from mutation_after_send [OF h, of "send (Str ''hello'') (Response_init [])"] h f
  show ?thesis by auto
qed

section \<open>Work after \<open>next\<close> has returned\<close>

text \<open>
  Claim C6: when a middleware calls \<open>proceed\<close> once and then mutates the response, for
  example sets a header, the mutation is part of the final response sent to the client.

  \<open>Response.send\<close> writes status and headers to the socket when it is called. With
  \<open>header_after\<close> in front of \<open>routes_middleware\<close>, \<open>GET /about\<close> is answered inside
  \<open>next\<close>; the header set afterwards is in no response on the socket.
\<close>

theorem header_after_next_not_sent:
  "process_request [header_after ''X-After'' ''1'', routes_middleware ''t'']
      (wire_request ''GET'' ''/about'' []) []
     = Return [\<lparr>msg_status = 200, msg_headers = [(''Content-Type'', ''text/html'')],
                msg_body = Str about_page\<rparr>]
   \<and> dict_get [(''Content-Type'', ''text/html'')] ''X-After'' \<noteq> Some ''1''"
  by code_simp

text \<open>
  Claim C6 as amended: \<open>next\<close> returns control synchronously. A middleware that sets a
  header after \<open>next\<close> has returned does so after the whole rest of the chain has run:
  the header is in the \<open>Response\<close> object from then on, and nothing that the rest of the
  chain has written to the transport is changed by it.
\<close>

theorem header_after_next:
  "execute_middleware (header_after n v # rest) req 0 s =
     (case execute_middleware rest req 0 s of
        Return s' \<Rightarrow> Return (set_header n v s')
      | Raise e s' \<Rightarrow> Raise e s')
   \<and> wire (set_header n v s') = wire s'
   \<and> dict_get (res_headers (set_header n v s')) n = Some v"
  by (simp add: execute_middleware_head header_after_def set_header_def dict_get_def
      map_of_setitem)

text \<open>
  \<open>header_after\<close> in front of \<open>routes_middleware\<close>, for \<open>GET /about\<close>: the page is
  sent first, the header is set in the object afterwards.
\<close>

theorem header_after_next_witness:
  "execute_middleware [header_after ''X-After'' ''1'', routes_middleware ''t'']
      (plain_request ''GET'' ''/about'') 0 (Response_init [])
     = Return (set_header ''X-After'' ''1'' (send (Str about_page) (Response_init [])))
   \<and> wire (set_header ''X-After'' ''1'' (send (Str about_page) (Response_init [])))
     = wire (send (Str about_page) (Response_init []))"
proof -
  have r: "execute_middleware [routes_middleware ''t''] (plain_request ''GET'' ''/about'') 0
             (Response_init [])
           = Return (send (Str about_page) (Response_init []))"
    by (simp add: execute_middleware_head routes_middleware_def plain_request_def)
  from header_after_next [of "''X-After''" "''1''" "[routes_middleware ''t'']"
      "plain_request ''GET'' ''/about''" "Response_init []"
      "send (Str about_page) (Response_init [])"] r
  show ?thesis by simp
qed

section \<open>Sessions\<close>

text \<open>
  Claim C7: the session lookup treats a request without session cookie, one with an
  unknown session identifier and one with an expired identifier alike: in all three
  \<open>req.session\<close> and \<open>req.user\<close> are \<open>None\<close>, and none of them raises or can be told
  from the others.

  In each of the three cases \<open>session_middleware\<close> calls \<open>next\<close> with both attributes
  \<open>None\<close> and the response untouched. The sessions file keeps its records, but for the
  expired one, which \<open>get_session\<close> removes.
\<close>

theorem no_session_alike:
  assumes "dict_get (cookies req) ''session_id'' = None
     \<or> (\<exists>sid. dict_get (cookies req) ''session_id'' = Some sid
            \<and> find (\<lambda>x. sess_id x = sid) (sessions_file s) = None)
     \<or> (\<exists>sid se. dict_get (cookies req) ''session_id'' = Some sid
            \<and> find (\<lambda>x. sess_id x = sid) (sessions_file s) = Some se \<and> now > expires_at se)"
  shows "\<exists>s'. session_middleware now req s next = next s'
      \<and> req_session s' = None \<and> req_user s' = None
      \<and> status_code s' = status_code s \<and> res_headers s' = res_headers s \<and> wire s' = wire s
      \<and> users_file s' = users_file s \<and> set (sessions_file s') \<subseteq> set (sessions_file s)"
  using assms
  by (auto simp: session_middleware_def get_session_def truthy_def Let_def split: option.splits)

text \<open>
  The three cases on the sessions file of \<open>demo_app_state\<close>, at time 200: no cookie, the
  unknown identifier \<open>zz\<close>, and \<open>s1\<close>, which expired at 100. At time 50 the session
  \<open>s1\<close> is still found.
\<close>

theorem no_session_alike_witness:
  "dict_get (cookies (client_request ''GET'' ''/profile'' [])) ''session_id'' = None
   \<and> (\<exists>s'. session_middleware 200 (client_request ''GET'' ''/profile'' []) demo_app_state Return
               = Return s' \<and> req_session s' = None \<and> req_user s' = None)
   \<and> dict_get (cookies (client_request ''GET'' ''/profile'' [(''session_id'', ''zz'')])) ''session_id''
       = Some ''zz''
   \<and> find (\<lambda>x. sess_id x = ''zz'') (sessions_file demo_app_state) = None
   \<and> (\<exists>s'. session_middleware 200 (client_request ''GET'' ''/profile'' [(''session_id'', ''zz'')])
               demo_app_state Return
               = Return s' \<and> req_session s' = None \<and> req_user s' = None)
   \<and> dict_get (cookies (client_request ''GET'' ''/profile'' [(''session_id'', ''s1'')])) ''session_id''
       = Some ''s1''
   \<and> find (\<lambda>x. sess_id x = ''s1'') (sessions_file demo_app_state)
       = Some \<lparr>sess_id = ''s1'', sess_user_id = ''1'', created_at = 0, expires_at = 100\<rparr>
   \<and> (\<exists>s'. session_middleware 200 (client_request ''GET'' ''/profile'' [(''session_id'', ''s1'')])
               demo_app_state Return
               = Return s' \<and> req_session s' = None \<and> req_user s' = None)
   \<and> req_session (case session_middleware 50 (client_request ''GET'' ''/profile'' [(''session_id'', ''s1'')])
               demo_app_state Return of Return s' \<Rightarrow> s' | Raise e s' \<Rightarrow> s')
       = Some \<lparr>sess_id = ''s1'', sess_user_id = ''1'', created_at = 0, expires_at = 100\<rparr>"
proof -
  let ?se = "\<lparr>sess_id = ''s1'', sess_user_id = ''1'', created_at = 0, expires_at = 100\<rparr>"
  have a: "dict_get (cookies (client_request ''GET'' ''/profile'' [])) ''session_id'' = None"
    by code_simp
  have u1: "dict_get (cookies (client_request ''GET'' ''/profile'' [(''session_id'', ''zz'')])) ''session_id''
       = Some ''zz''" by code_simp
  have u2: "find (\<lambda>x. sess_id x = ''zz'') (sessions_file demo_app_state) = None"
    by code_simp
  have x1: "dict_get (cookies (client_request ''GET'' ''/profile'' [(''session_id'', ''s1'')])) ''session_id''
       = Some ''s1''" by code_simp
  have x2: "find (\<lambda>x. sess_id x = ''s1'') (sessions_file demo_app_state) = Some ?se"
    by code_simp
  have x3: "(200::int) > expires_at ?se" by simp
  have v: "req_session (case session_middleware 50 (client_request ''GET'' ''/profile'' [(''session_id'', ''s1'')])
               demo_app_state Return of Return s' \<Rightarrow> s' | Raise e s' \<Rightarrow> s') = Some ?se"
    by code_simp
  have c1: "\<exists>s'. session_middleware 200 (client_request ''GET'' ''/profile'' []) demo_app_state Return
               = Return s' \<and> req_session s' = None \<and> req_user s' = None"
    using no_session_alike [of "client_request ''GET'' ''/profile'' []" demo_app_state 200 Return] a
    by blast
  have c2: "\<exists>s'. session_middleware 200 (client_request ''GET'' ''/profile'' [(''session_id'', ''zz'')])
               demo_app_state Return
               = Return s' \<and> req_session s' = None \<and> req_user s' = None"
    using no_session_alike [of "client_request ''GET'' ''/profile'' [(''session_id'', ''zz'')]"
        demo_app_state 200 Return] u1 u2
    by blast
  have c3: "\<exists>s'. session_middleware 200 (client_request ''GET'' ''/profile'' [(''session_id'', ''s1'')])
               demo_app_state Return
               = Return s' \<and> req_session s' = None \<and> req_user s' = None"
    using no_session_alike [of "client_request ''GET'' ''/profile'' [(''session_id'', ''s1'')]"
        demo_app_state 200 Return] x1 x2 x3
    by blast
  from a u1 u2 x1 x2 v c1 c2 c3 show ?thesis by blast
qed

section \<open>The query mapping\<close>

lemma map_of_append_value:
  "map_of (append_value d nv) =
     (map_of d)(fst nv \<mapsto> (case map_of d (fst nv) of Some vs \<Rightarrow> vs @ [snd nv] | None \<Rightarrow> [snd nv]))"
  by (simp add: append_value_def dict_get_def map_of_setitem split: option.split)

lemma map_of_parse_fold:
  "map_of (foldl append_value d ps) k =
     (case map_of d k of
        Some us \<Rightarrow> Some (us @ values_of k ps)
      | None \<Rightarrow> (if values_of k ps = [] then None else Some (values_of k ps)))"
proof (induction ps arbitrary: d)
  case Nil
  then show ?case by (simp add: values_of_def split: option.split)
next
  case (Cons p ps)
  show ?case
    by (simp add: Cons.IH map_of_append_value values_of_def split: option.split)
qed

lemma distinct_parse_fold:
  "distinct (map fst d) \<Longrightarrow> distinct (map fst (foldl append_value d ps))"
proof (induction ps arbitrary: d)
  case Nil
  then show ?case by simp
next
  case (Cons p ps)
  have "distinct (map fst (append_value d p))"
    using Cons.prems by (simp add: append_value_def distinct_setitem split: option.split)
  then show ?case using Cons.IH by simp
qed

lemma map_of_first_fold:
  "distinct (map fst d) \<Longrightarrow>
   map_of (foldl (\<lambda>acc kv. setitem (fst kv) (hd (snd kv)) acc) acc0 d) k =
     (case map_of d k of Some vs \<Rightarrow> Some (hd vs) | None \<Rightarrow> map_of acc0 k)"
proof (induction d arbitrary: acc0)
  case Nil
  then show ?case by simp
next
  case (Cons p d)
  from Cons.prems have nk: "map_of d (fst p) = None"
    by (simp add: map_of_eq_None_iff)
  from Cons.prems have "distinct (map fst d)" by simp
  then show ?case
    using nk by (cases p) (auto simp: Cons.IH map_of_setitem split: option.split)
qed

lemma values_of_map_of:
  "(case values_of k ps of [] \<Rightarrow> None | v # vs \<Rightarrow> Some v) = map_of ps k"
  by (induction ps) (auto simp: values_of_def)

text \<open>The query dict gives for a name what \<open>map_of\<close> finds first among the parsed fields.\<close>

lemma query_first_field:
  "dict_get (first_values (parse_qs qs)) k = map_of (parse_qsl qs) k"
proof -
  have d: "distinct (map fst (parse_qs qs))"
    unfolding parse_qs_def by (rule distinct_parse_fold) simp
  have "dict_get (first_values (parse_qs qs)) k =
          (case map_of (parse_qs qs) k of Some vs \<Rightarrow> Some (hd vs) | None \<Rightarrow> None)"
    unfolding first_values_def dict_get_def using map_of_first_fold [OF d, of "[]" k]
    by (simp split: option.split)
  also have "\<dots> = (case values_of k (parse_qsl qs) of [] \<Rightarrow> None | v # vs \<Rightarrow> Some v)"
    unfolding parse_qs_def by (simp add: map_of_parse_fold split: list.split)
  also have "\<dots> = map_of (parse_qsl qs) k" by (rule values_of_map_of)
  finally show ?thesis .
qed

text \<open>
  Claim C8: when the query string of a request holds a key more than once, the parsed
  query mapping binds the key to the last value supplied.

  \<open>Request.__init__\<close> takes \<open>v[0]\<close> of the list that \<open>parse_qs\<close> collects: for
  \<open>/search?tag=a&tag=b\<close> the mapping binds \<open>tag\<close> to \<open>a\<close>, not to \<open>b\<close>.
\<close>

theorem query_duplicate_key_example:
  "(case Request_init (wire_request ''GET'' ''/search?tag=a&tag=b'' []) of
      Inr req \<Rightarrow> dict_get (query req) ''tag'' = Some ''a'' \<and> dict_get (query req) ''tag'' \<noteq> Some ''b''
    | Inl e \<Rightarrow> False)"
  by code_simp

text \<open>
  Claim C8 as amended: when the query string of a request holds a key more than once,
  the parsed query mapping binds the key to the first value supplied: the value of the
  first field of that name among the fields that \<open>parse_qsl\<close> keeps.
\<close>

theorem query_first_value_wins:
  assumes "Request_init h = Inr req"
    and "CHR ''?'' \<in> set (raw_path h)"
    and "parse_qsl (split1 (CHR ''?'') (raw_path h) ! 1) = before @ (k, v) # after"
    and "k \<notin> fst ` set before"
  shows "dict_get (query req) k = Some v"
proof -
  from assms(1) have "query req = Request_query (raw_path h)"
    by (auto simp: Request_init_def Let_def split: option.splits if_splits)
  then have "dict_get (query req) k = map_of (before @ (k, v) # after) k"
    using assms(2,3) by (simp add: Request_query_def query_first_field)
  also have "\<dots> = Some v"
  proof -
    from assms(4) have "map_of before k = None" by (simp add: map_of_eq_None_iff)
    then show ?thesis by (simp add: map_add_def)
  qed
  finally show ?thesis .
qed

theorem query_first_value_wins_witness:
  "Request_init (wire_request ''GET'' ''/search?q=x&tag=a&tag=b'' [])
     = Inr \<lparr>method = ''GET'', path = ''/search'', headers = [],
            query = [(''q'', ''x''), (''tag'', ''a'')], body = JDict [], body_raw = []\<rparr>
   \<and> CHR ''?'' \<in> set (raw_path (wire_request ''GET'' ''/search?q=x&tag=a&tag=b'' []))
   \<and> parse_qsl (split1 (CHR ''?'') (raw_path (wire_request ''GET'' ''/search?q=x&tag=a&tag=b'' [])) ! 1)
       = [(''q'', ''x'')] @ (''tag'', ''a'') # [(''tag'', ''b'')]
   \<and> ''tag'' \<notin> fst ` set [(''q'', ''x'')]
   \<and> dict_get [(''q'', ''x''), (''tag'', ''a'')] ''tag'' = Some ''a''"
proof -
  let ?h = "wire_request ''GET'' ''/search?q=x&tag=a&tag=b'' []"
  let ?req = "\<lparr>method = ''GET'', path = ''/search'', headers = [],
            query = [(''q'', ''x''), (''tag'', ''a'')], body = JDict [], body_raw = []\<rparr>"
  have h1: "Request_init ?h = Inr ?req" by code_simp
  have h2: "CHR ''?'' \<in> set (raw_path ?h)" by code_simp
  have h3: "parse_qsl (split1 (CHR ''?'') (raw_path ?h) ! 1)
              = [(''q'', ''x'')] @ (''tag'', ''a'') # [(''tag'', ''b'')]"
    by code_simp
  have h4: "''tag'' \<notin> fst ` set [(''q'', ''x'')]" by simp
  from query_first_value_wins [OF h1 h2 h3 h4] h1 h2 h3 h4 show ?thesis by simp
qed

section \<open>The header mapping\<close>

lemma lower_char_idem: "lower_char (lower_char c) = lower_char c"
  by (simp add: lower_char_def Let_def)

lemma lower_idem: "lower (lower s) = lower s"
  by (simp add: lower_def lower_char_idem)

lemma lower_fold_other:
  "\<forall>kv\<in>set post. lower (fst kv) \<noteq> k' \<Longrightarrow>
   map_of (foldl (\<lambda>acc kv. setitem (lower (fst kv)) (snd kv) acc) acc post) k' = map_of acc k'"
  by (induction post arbitrary: acc) (auto simp: map_of_setitem)

lemma lower_fold_keys:
  "fst ` set (foldl (\<lambda>acc kv. setitem (lower (fst kv)) (snd kv) acc) acc items)
     = fst ` set acc \<union> (\<lambda>kv. lower (fst kv)) ` set items"
  by (induction items arbitrary: acc) (auto simp: keys_setitem)

lemma lower_keys_last:
  assumes "items = pre @ (k, v) # post" and "\<forall>kv\<in>set post. lower (fst kv) \<noteq> lower k"
  shows "dict_get (lower_keys items) (lower k) = Some v"
  using assms(2)
  by (simp add: lower_keys_def dict_get_def assms(1) lower_fold_other map_of_setitem)

lemma lower_keys_upper:
  assumes "n \<noteq> lower n"
  shows "dict_get (lower_keys items) n = None"
proof -
  have "n \<notin> fst ` set (lower_keys items)"
  proof
    assume "n \<in> fst ` set (lower_keys items)"
    then obtain kv :: "string \<times> string" where "n = lower (fst kv)"
      by (auto simp: lower_keys_def lower_fold_keys)
    then have "lower n = n" by (simp add: lower_idem)
    with assms show False by simp
  qed
  then show ?thesis by (simp add: dict_get_def map_of_eq_None_iff)
qed

lemma lower_keys_casing:
  assumes "map (\<lambda>kv. (lower (fst kv), snd kv)) items' = map (\<lambda>kv. (lower (fst kv), snd kv)) items"
  shows "lower_keys items' = lower_keys items"
proof -
  have "\<And>xs. lower_keys xs =
      foldl (\<lambda>acc kv. setitem (fst kv) (snd kv) acc) []
        (map (\<lambda>kv. (lower (fst kv), snd kv)) xs)"
    by (simp add: lower_keys_def foldl_map)
  with assms show ?thesis by simp
qed

lemma Request_init_headers:
  "Request_init h = Inr req \<Longrightarrow> headers req = lower_keys (header_items h)"
  by (auto simp: Request_init_def Let_def split: option.splits if_splits)

text \<open>
  Claim C9: header lookup on the header mapping of a request is case-insensitive: two
  header names that differ only in letter case retrieve the same value, whatever casing
  the client used on the wire.

  \<open>Request.headers\<close> is a plain dict whose keys were lowered once. For the header
  \<open>X-API-Key: abc123\<close> the name \<open>x-api-key\<close> finds the value and the name
  \<open>X-API-Key\<close>, which differs from it only in case, finds nothing.
\<close>

theorem header_lookup_example:
  "(case Request_init (wire_request ''GET'' ''/protected'' [(''X-API-Key'', ''abc123'')]) of
      Inr req \<Rightarrow> dict_get (headers req) ''x-api-key'' = Some ''abc123''
                \<and> dict_get (headers req) ''X-API-Key'' = None
                \<and> lower ''X-API-Key'' = lower ''x-api-key''
    | Inl e \<Rightarrow> False)"
  by code_simp

text \<open>
  Claim C9 as amended: the header mapping of a request has lower-case keys. Looking a
  header up by its lower-case name retrieves the value that the client sent last under
  that name, whatever casing the client used on the wire, and two requests whose headers
  differ only in the casing of names have the same mapping; a name that has an
  upper-case letter retrieves nothing.
\<close>

theorem header_keys_lower_case:
  assumes "Request_init h = Inr req"
  shows "(header_items h = pre @ (k, v) # post \<and> (\<forall>kv\<in>set post. lower (fst kv) \<noteq> lower k)
            \<longrightarrow> dict_get (headers req) (lower k) = Some v)
       \<and> (Request_init h' = Inr req'
            \<and> map (\<lambda>kv. (lower (fst kv), snd kv)) (header_items h')
                = map (\<lambda>kv. (lower (fst kv), snd kv)) (header_items h)
            \<longrightarrow> headers req' = headers req)
       \<and> (n \<noteq> lower n \<longrightarrow> dict_get (headers req) n = None)"
proof (intro conjI impI)
  note hs = Request_init_headers [OF assms]
  show "dict_get (headers req) (lower k) = Some v"
    if a: "header_items h = pre @ (k, v) # post \<and> (\<forall>kv\<in>set post. lower (fst kv) \<noteq> lower k)"
  proof -
    from a have "dict_get (lower_keys (header_items h)) (lower k) = Some v"
      by (intro lower_keys_last [of _ pre k v post]) blast+
    then show ?thesis unfolding hs .
  qed
  show "headers req' = headers req"
    if b: "Request_init h' = Inr req'
          \<and> map (\<lambda>kv. (lower (fst kv), snd kv)) (header_items h')
              = map (\<lambda>kv. (lower (fst kv), snd kv)) (header_items h)"
  proof -
    from b have r: "Request_init h' = Inr req'" by blast
    from b have "lower_keys (header_items h') = lower_keys (header_items h)"
      by (intro lower_keys_casing) blast
    then show ?thesis
      unfolding hs Request_init_headers [OF r] .
  qed
  show "dict_get (headers req) n = None" if c: "n \<noteq> lower n"
    unfolding hs using c by (rule lower_keys_upper)
qed

theorem header_keys_lower_case_witness:
  "Request_init (wire_request ''GET'' ''/protected'' [(''Host'', ''a''), (''X-API-Key'', ''abc123'')])
     = Inr \<lparr>method = ''GET'', path = ''/protected'',
            headers = [(''host'', ''a''), (''x-api-key'', ''abc123'')],
            query = [], body = JDict [], body_raw = []\<rparr>
   \<and> header_items (wire_request ''GET'' ''/protected'' [(''Host'', ''a''), (''X-API-Key'', ''abc123'')])
       = [(''Host'', ''a'')] @ (''X-API-Key'', ''abc123'') # []
   \<and> Request_init (wire_request ''GET'' ''/protected'' [(''HOST'', ''a''), (''x-api-KEY'', ''abc123'')])
     = Inr \<lparr>method = ''GET'', path = ''/protected'',
            headers = [(''host'', ''a''), (''x-api-key'', ''abc123'')],
            query = [], body = JDict [], body_raw = []\<rparr>
   \<and> ''X-API-Key'' \<noteq> lower ''X-API-Key''
   \<and> dict_get [(''host'', ''a''), (''x-api-key'', ''abc123'')] (lower ''X-API-Key'') = Some ''abc123''
   \<and> dict_get [(''host'', ''a''), (''x-api-key'', ''abc123'')] ''X-API-Key'' = None"
proof -
  let ?h = "wire_request ''GET'' ''/protected'' [(''Host'', ''a''), (''X-API-Key'', ''abc123'')]"
  let ?h' = "wire_request ''GET'' ''/protected'' [(''HOST'', ''a''), (''x-api-KEY'', ''abc123'')]"
  let ?req = "\<lparr>method = ''GET'', path = ''/protected'',
            headers = [(''host'', ''a''), (''x-api-key'', ''abc123'')],
            query = [], body = JDict [], body_raw = []\<rparr>"
  have h1: "Request_init ?h = Inr ?req" by code_simp
  have h2: "header_items ?h = [(''Host'', ''a'')] @ (''X-API-Key'', ''abc123'') # []" by code_simp
  have h3: "\<forall>kv\<in>set ([] :: (string \<times> string) list). lower (fst kv) \<noteq> lower ''X-API-Key''" by simp
  have h4: "Request_init ?h' = Inr ?req" by code_simp
  have h5: "map (\<lambda>kv. (lower (fst kv), snd kv)) (header_items ?h')
                = map (\<lambda>kv. (lower (fst kv), snd kv)) (header_items ?h)" by code_simp
  have h6: "''X-API-Key'' \<noteq> lower ''X-API-Key''" by code_simp
  have hd: "headers ?req = [(''host'', ''a''), (''x-api-key'', ''abc123'')]" by simp
  from header_keys_lower_case [OF h1, of "[(''Host'', ''a'')]" "''X-API-Key''" "''abc123''" "[]" ?h' ?req "''X-API-Key''"]
    h1 h2 h3 h4 h5 h6
  show ?thesis unfolding hd by blast
qed

section \<open>The rate limiter\<close>

lemma get_or_setitem_other: "k \<noteq> c \<Longrightarrow> get_or (setitem k v d) c x = get_or d c x"
  by (simp add: get_or_def dict_get_def map_of_setitem)

lemma client_ip_identity: "client_ip_of req = client_identity req"
proof -
  have l: "lower ''x-forwarded-for'' = ''x-forwarded-for''" by code_simp
  show ?thesis
    by (simp add: client_ip_of_def client_identity_def get_header_def l truthy_def get_or_def
        split: option.split)
qed

lemma rate_limiter_table:
  "get_or (fst (rate_limiter fl m w now cl req s next)) (client_ip_of req) [] =
     (let kept = filter (\<lambda>t. float_sub fl now t < real_of_int w) (get_or cl (client_ip_of req) [])
      in if m \<le> int (length kept) then kept else kept @ [now])"
  by (simp add: rate_limiter_def Let_def get_or_setitem)
     (simp add: get_or_def dict_get_def map_of_setitem)

lemma rate_limiter_other:
  "c \<noteq> client_ip_of req \<Longrightarrow>
   get_or (fst (rate_limiter fl m w now cl req s next)) c [] = get_or cl c []"
  by (simp add: rate_limiter_def Let_def get_or_def dict_get_def map_of_setitem)

lemma rate_limiter_run_snoc:
  "rate_limiter_run fl m w next (reqs @ [rt]) cl =
     fst (rate_limiter fl m w (snd rt) (rate_limiter_run fl m w next reqs cl) (fst rt)
            (Response_init []) next)"
  by (simp add: rate_limiter_run_def)

lemma admitted_times_snoc:
  "admitted_times fl m w (nows @ [now]) =
     (if int (length (filter (\<lambda>t. float_sub fl now t < real_of_int w) (admitted_times fl m w nows))) < m
      then admitted_times fl m w nows @ [now] else admitted_times fl m w nows)"
  by (simp add: admitted_times_def)

lemma times_of_snoc:
  "times_of c (reqs @ [rt]) =
     (if client_identity (fst rt) = c then times_of c reqs @ [snd rt] else times_of c reqs)"
  by (simp add: times_of_def)

lemma times_of_subset: "set (times_of c reqs) \<subseteq> set (map snd reqs)"
  by (auto simp: times_of_def)

lemma filter_window_mono:
  assumes mono: "\<forall>a b t. a \<le> b \<longrightarrow> float_sub fl a t \<le> float_sub fl b t"
    and le: "prev \<le> now"
  shows "filter (\<lambda>t. float_sub fl now t < w) (filter (\<lambda>t. float_sub fl prev t < w) xs)
           = filter (\<lambda>t. float_sub fl now t < w) xs"
proof -
  have "\<And>t. float_sub fl prev t \<le> float_sub fl now t" using mono le by blast
  then have "\<And>t. (float_sub fl prev t < w \<and> float_sub fl now t < w) = (float_sub fl now t < w)"
    by (meson le_less_trans)
  then show ?thesis by (simp add: conj_commute)
qed

lemma run_record:
  assumes w: "0 < w"
    and mono: "\<forall>a b t. a \<le> b \<longrightarrow> float_sub fl a t \<le> float_sub fl b t"
    and zero: "\<forall>x. float_sub fl x x = 0"
  shows "sorted (map snd reqs) \<Longrightarrow>
     get_or (rate_limiter_run fl m w next reqs []) c [] =
       (if times_of c reqs = [] then []
        else filter (\<lambda>t. float_sub fl (last (times_of c reqs)) t < real_of_int w)
               (admitted_times fl m w (times_of c reqs)))"
proof (induction reqs rule: rev_induct)
  case Nil
  then show ?case by (simp add: rate_limiter_run_def times_of_def get_or_def dict_get_def)
next
  case (snoc rt reqs)
  from snoc.prems have srt: "sorted (map snd reqs)" and le: "\<forall>t\<in>set (map snd reqs). t \<le> snd rt"
    by (auto simp: sorted_append)
  note ih = snoc.IH [OF srt]
  let ?tab = "rate_limiter_run fl m w next reqs []"
  let ?mine = "times_of c reqs"
  show ?case
  proof (cases "client_identity (fst rt) = c")
    case False
    then have "c \<noteq> client_ip_of (fst rt)" by (auto simp: client_ip_identity)
    then show ?thesis
      using False ih by (simp add: rate_limiter_run_snoc rate_limiter_other times_of_snoc)
  next
    case True
    then have ip: "client_ip_of (fst rt) = c" by (simp add: client_ip_identity)
    have tab: "get_or (rate_limiter_run fl m w next (reqs @ [rt]) []) c [] =
       (let kept = filter (\<lambda>t. float_sub fl (snd rt) t < real_of_int w) (get_or ?tab c [])
        in if m \<le> int (length kept) then kept else kept @ [snd rt])"
      using rate_limiter_table [of fl m w "snd rt" "?tab" "fst rt" "Response_init []" "next"]
      by (simp add: rate_limiter_run_snoc ip)
    have z: "float_sub fl (snd rt) (snd rt) < real_of_int w" using zero w by simp
    show ?thesis
    proof (cases "?mine = []")
      case True
      with ih have "get_or ?tab c [] = []" by simp
      moreover from True have "admitted_times fl m w ?mine = []" by (simp add: admitted_times_def)
      ultimately show ?thesis
        using \<open>client_identity (fst rt) = c\<close> True z
        by (simp add: tab times_of_snoc Let_def) (simp add: admitted_times_def)
    next
      case False
      then have "last ?mine \<in> set ?mine" by simp
      with times_of_subset le have "last ?mine \<le> snd rt" by blast
      from filter_window_mono [OF mono this] ih False
      have kept: "filter (\<lambda>t. float_sub fl (snd rt) t < real_of_int w) (get_or ?tab c [])
                = filter (\<lambda>t. float_sub fl (snd rt) t < real_of_int w) (admitted_times fl m w ?mine)"
        by simp
      show ?thesis
        using \<open>client_identity (fst rt) = c\<close> z
        by (simp add: tab times_of_snoc admitted_times_snoc Let_def kept)
    qed
  qed
qed

lemma run_length:
  assumes m: "0 \<le> m"
  shows "int (length (get_or (rate_limiter_run fl m w next reqs []) c [])) \<le> m"
proof (induction reqs rule: rev_induct)
  case Nil
  then show ?case using m by (simp add: rate_limiter_run_def get_or_def dict_get_def)
next
  case (snoc rt reqs)
  let ?r = "get_or (rate_limiter_run fl m w next reqs []) c []"
  show ?case
  proof (cases "client_ip_of (fst rt) = c")
    case False
    then have "c \<noteq> client_ip_of (fst rt)" by auto
    with snoc show ?thesis by (simp add: rate_limiter_run_snoc rate_limiter_other)
  next
    case True
    have "length (filter (\<lambda>t. float_sub fl (snd rt) t < real_of_int w) ?r) \<le> length ?r" by simp
    with snoc have "int (length (filter (\<lambda>t. float_sub fl (snd rt) t < real_of_int w) ?r)) \<le> m"
      by linarith
    then show ?thesis
      using rate_limiter_table [of fl m w "snd rt" "rate_limiter_run fl m w next reqs []" "fst rt"
          "Response_init []" "next"]
      by (auto simp: rate_limiter_run_snoc True Let_def)
  qed
qed

lemma rate_limiter_decision:
  fixes s :: "'a state_scheme"
  shows "snd (rate_limiter fl m w now cl req s next) =
     (let kept = filter (\<lambda>t. float_sub fl now t < real_of_int w) (get_or cl (client_ip_of req) [])
      in if int (length kept) < m then
           next (set_header ''X-RateLimit-Reset''
                   (str_int (py_int_of_real (float_add fl now (real_of_int w))))
                  (set_header ''X-RateLimit-Remaining'' (str_int (m - (int (length kept) + 1)))
                    (set_header ''X-RateLimit-Limit'' (str_int m) s)))
         else Return (send_json (JDict [(''error'', JStr ''Too Many Requests''),
               (''message'', JStr (''Rate limit of '' @ str_int m @ '' requests per ''
                  @ str_int w @ '' seconds exceeded''))]) (status 429 s)))"
  by (simp add: rate_limiter_def Let_def get_or_setitem)
     (auto simp add: get_or_def dict_get_def map_of_setitem Let_def algebra_simps)

text \<open>
  Claim C10: for every sequence of requests of one client through a \<open>rate_limiter\<close>
  with \<open>max_requests\<close> and \<open>window_seconds\<close>, the record of the client holds only
  timestamps of the last \<open>window_seconds\<close> and at most \<open>max_requests\<close> of them; the
  middleware calls \<open>next\<close> exactly when fewer than \<open>max_requests\<close> requests of the
  client were admitted inside the window, with X-RateLimit-Remaining set to
  \<open>max_requests\<close> minus the admitted count, and answers 429 without \<open>next\<close> otherwise.

  The limiter takes any two integers and reads the wall clock. With \<open>max_requests = -1\<close>
  the record of a client is empty, which is more than \<open>max_requests\<close> entries. With
  \<open>window_seconds = 0\<close> an admitted request leaves its own timestamp in the record, which
  the test of the window does not accept. When the clock steps back, with two requests
  allowed in sixty seconds and requests admitted at 100 and 200, a request at 110 is
  admitted although both lie inside its window: the record had dropped the first at 200.
\<close>

theorem rate_limiter_window_example:
  "\<not> int (length (get_or (fst (rate_limiter exact_floats (- 1) 60 0 []
          (status_request [] ''10.0.0.7'') (Response_init []) Return)) ''10.0.0.7'' [])) \<le> - 1
   \<and> get_or (fst (rate_limiter exact_floats 5 0 7 []
          (status_request [] ''10.0.0.7'') (Response_init []) Return)) ''10.0.0.7'' [] = [7]
   \<and> \<not> float_sub exact_floats 7 7 < real_of_int 0
   \<and> admitted_times exact_floats 2 60 [100, 200, 110] = [100, 200]
   \<and> filter (\<lambda>t. float_sub exact_floats 110 t < real_of_int 60) [100, 200] = [100, 200]
   \<and> snd (rate_limiter exact_floats 2 60 110
           (rate_limiter_run exact_floats 2 60 Return
              [(status_request [] ''10.0.0.7'', 100), (status_request [] ''10.0.0.7'', 200)] [])
           (status_request [] ''10.0.0.7'') (Response_init []) Return)
       = Return (set_header ''X-RateLimit-Reset'' ''170''
                  (set_header ''X-RateLimit-Remaining'' ''0''
                    (set_header ''X-RateLimit-Limit'' ''2'' (Response_init []))))"
  by code_simp

text \<open>
  Claim C10 as amended: for every sequence of requests that arrive in the order of their
  timestamps at a \<open>rate_limiter\<close> with \<open>max_requests\<close> not negative and
  \<open>window_seconds\<close> positive, and for every client identity (the forwarded address of a
  request that names one, the address of its peer otherwise), the record of the client
  is made of the requests of that client alone: it holds the timestamps of its admitted
  requests that lie inside the window ending at its latest request, at most
  \<open>max_requests\<close> of them. A further request of the client calls \<open>next\<close> exactly when
  fewer than \<open>max_requests\<close> of its admitted requests lie inside the window ending at
  that request, with X-RateLimit-Remaining set to \<open>max_requests\<close> minus their count and
  itself; otherwise the answer is 429, whatever \<open>next\<close> is.

  The subtraction of floats is taken to be monotone in its first argument and to give
  0 for equal arguments, as the rounded subtraction of the platform does.
\<close>

theorem rate_limiter_window:
  assumes "sorted (map snd reqs)" and "0 < window_seconds" and "0 \<le> max_requests"
    and "\<forall>a b t. a \<le> b \<longrightarrow> float_sub fl a t \<le> float_sub fl b t"
    and "\<forall>x. float_sub fl x x = 0"
  shows
    "(let table = rate_limiter_run fl max_requests window_seconds next reqs [];
          mine = times_of c reqs;
          stamps = get_or table c [];
          admitted = admitted_times fl max_requests window_seconds mine
      in (mine = [] \<longrightarrow> stamps = [])
         \<and> (mine \<noteq> [] \<longrightarrow>
              stamps = filter (\<lambda>t. float_sub fl (last mine) t < real_of_int window_seconds) admitted
              \<and> (\<forall>t\<in>set stamps. float_sub fl (last mine) t < real_of_int window_seconds))
         \<and> int (length stamps) \<le> max_requests
         \<and> (client_identity rq = c \<and> (\<forall>t\<in>set (map snd reqs). t \<le> now) \<longrightarrow>
              snd (rate_limiter fl max_requests window_seconds now table rq s k) =
                (let inside = filter (\<lambda>t. float_sub fl now t < real_of_int window_seconds) admitted
                 in if int (length inside) < max_requests then
                      k (set_header ''X-RateLimit-Reset''
                           (str_int (py_int_of_real (float_add fl now (real_of_int window_seconds))))
                          (set_header ''X-RateLimit-Remaining''
                             (str_int (max_requests - (int (length inside) + 1)))
                            (set_header ''X-RateLimit-Limit'' (str_int max_requests) s)))
                    else Return (send_json (JDict [(''error'', JStr ''Too Many Requests''),
                           (''message'', JStr (''Rate limit of '' @ str_int max_requests
                              @ '' requests per '' @ str_int window_seconds
                              @ '' seconds exceeded''))]) (status 429 s)))))"
proof -
  let ?table = "rate_limiter_run fl max_requests window_seconds next reqs []"
  let ?mine = "times_of c reqs"
  let ?stamps = "get_or ?table c []"
  let ?adm = "admitted_times fl max_requests window_seconds ?mine"
  have rec: "?stamps = (if ?mine = [] then []
               else filter (\<lambda>t. float_sub fl (last ?mine) t < real_of_int window_seconds) ?adm)"
    using run_record [OF assms(2) assms(4) assms(5) assms(1)] .
  have len: "int (length ?stamps) \<le> max_requests"
    using run_length [OF assms(3)] .
  have dec: "filter (\<lambda>t. float_sub fl now t < real_of_int window_seconds)
                 (get_or ?table (client_ip_of rq) [])
               = filter (\<lambda>t. float_sub fl now t < real_of_int window_seconds) ?adm"
    if h: "client_identity rq = c \<and> (\<forall>t\<in>set (map snd reqs). t \<le> now)"
  proof -
    from h have ip: "client_ip_of rq = c" by (simp add: client_ip_identity)
    show ?thesis
    proof (cases "?mine = []")
      case True
      with rec have r: "?stamps = []" by simp
      from True have "?adm = []" by (simp add: admitted_times_def)
      with r show ?thesis by (simp add: ip)
    next
      case False
      then have "last ?mine \<in> set ?mine" by simp
      with times_of_subset h have "last ?mine \<le> now" by blast
      from filter_window_mono [OF assms(4) this] False show ?thesis by (simp add: rec ip)
    qed
  qed
  show ?thesis
    unfolding Let_def
  proof (intro conjI impI)
    show "?stamps = []" if "?mine = []"
      using that rec by simp
    show "?stamps = filter (\<lambda>t. float_sub fl (last ?mine) t < real_of_int window_seconds) ?adm"
      if "?mine \<noteq> []"
      using that rec by simp
    show "\<forall>t\<in>set ?stamps. float_sub fl (last ?mine) t < real_of_int window_seconds"
      if "?mine \<noteq> []"
      using that rec by simp
    show "int (length ?stamps) \<le> max_requests" by (rule len)
    show "snd (rate_limiter fl max_requests window_seconds now ?table rq s k) =
       (if int (length (filter (\<lambda>t. float_sub fl now t < real_of_int window_seconds) ?adm))
             < max_requests then
          k (set_header ''X-RateLimit-Reset''
               (str_int (py_int_of_real (float_add fl now (real_of_int window_seconds))))
              (set_header ''X-RateLimit-Remaining''
                 (str_int (max_requests - (int (length (filter (\<lambda>t. float_sub fl now t < real_of_int window_seconds) ?adm)) + 1)))
                (set_header ''X-RateLimit-Limit'' (str_int max_requests) s)))
        else Return (send_json (JDict [(''error'', JStr ''Too Many Requests''),
               (''message'', JStr (''Rate limit of '' @ str_int max_requests
                  @ '' requests per '' @ str_int window_seconds
                  @ '' seconds exceeded''))]) (status 429 s)))"
      if "client_identity rq = c \<and> (\<forall>t\<in>set (map snd reqs). t \<le> now)"
      unfolding rate_limiter_decision Let_def dec [OF that] ..
  qed
qed

text \<open>
  Two clients behind one peer address, two requests allowed in ten seconds. The client
  without forwarded address is admitted at 0 and 1, answered 429 at 2 and admitted again
  at 11 and 12; the requests of the forwarded client at 0 and 3 are counted apart.
\<close>

theorem rate_limiter_window_witness:
  "sorted (map snd [(status_request [] ''10.0.0.7'', 0 :: real),
                    (status_request [(''x-forwarded-for'', ''10.0.0.9'')] ''10.0.0.7'', 0),
                    (status_request [] ''10.0.0.7'', 1), (status_request [] ''10.0.0.7'', 2),
                    (status_request [(''x-forwarded-for'', ''10.0.0.9'')] ''10.0.0.7'', 3),
                    (status_request [] ''10.0.0.7'', 11)])
   \<and> (0::int) < 10 \<and> (0::int) \<le> 2
   \<and> get_or (rate_limiter_run exact_floats 2 10 Return
          [(status_request [] ''10.0.0.7'', 0),
           (status_request [(''x-forwarded-for'', ''10.0.0.9'')] ''10.0.0.7'', 0),
           (status_request [] ''10.0.0.7'', 1), (status_request [] ''10.0.0.7'', 2),
           (status_request [(''x-forwarded-for'', ''10.0.0.9'')] ''10.0.0.7'', 3),
           (status_request [] ''10.0.0.7'', 11)] []) ''10.0.0.7'' [] = [11]
   \<and> get_or (rate_limiter_run exact_floats 2 10 Return
          [(status_request [] ''10.0.0.7'', 0),
           (status_request [(''x-forwarded-for'', ''10.0.0.9'')] ''10.0.0.7'', 0),
           (status_request [] ''10.0.0.7'', 1), (status_request [] ''10.0.0.7'', 2),
           (status_request [(''x-forwarded-for'', ''10.0.0.9'')] ''10.0.0.7'', 3),
           (status_request [] ''10.0.0.7'', 11)] []) ''10.0.0.9'' [] = [0, 3]
   \<and> snd (rate_limiter exact_floats 2 10 12
           (rate_limiter_run exact_floats 2 10 Return
              [(status_request [] ''10.0.0.7'', 0),
               (status_request [(''x-forwarded-for'', ''10.0.0.9'')] ''10.0.0.7'', 0),
               (status_request [] ''10.0.0.7'', 1), (status_request [] ''10.0.0.7'', 2),
               (status_request [(''x-forwarded-for'', ''10.0.0.9'')] ''10.0.0.7'', 3),
               (status_request [] ''10.0.0.7'', 11)] [])
           (status_request [] ''10.0.0.7'') (Response_init []) Return)
       = Return (set_header ''X-RateLimit-Reset'' ''22''
                  (set_header ''X-RateLimit-Remaining'' ''0''
                    (set_header ''X-RateLimit-Limit'' ''2'' (Response_init []))))
   \<and> snd (rate_limiter exact_floats 2 10 2
           (rate_limiter_run exact_floats 2 10 Return
              [(status_request [] ''10.0.0.7'', 0),
               (status_request [(''x-forwarded-for'', ''10.0.0.9'')] ''10.0.0.7'', 0),
               (status_request [] ''10.0.0.7'', 1)] [])
           (status_request [] ''10.0.0.7'') (Response_init []) Return)
       = Return (send_json (JDict [(''error'', JStr ''Too Many Requests''),
                   (''message'', JStr ''Rate limit of 2 requests per 10 seconds exceeded'')])
                  (status 429 (Response_init [])))"
proof -
  let ?A = "status_request [] ''10.0.0.7''"
  let ?B = "status_request [(''x-forwarded-for'', ''10.0.0.9'')] ''10.0.0.7''"
  let ?reqs = "[(?A, 0 :: real), (?B, 0), (?A, 1), (?A, 2), (?B, 3), (?A, 11)]"
  let ?reqs' = "[(?A, 0 :: real), (?B, 0), (?A, 1)]"
  have h1: "sorted (map snd ?reqs)" by simp
  have h1': "sorted (map snd ?reqs')" by simp
  have h2: "(0::int) < 10" by simp
  have h3: "(0::int) \<le> 2" by simp
  have h4: "\<forall>a b t. a \<le> b \<longrightarrow> float_sub exact_floats a t \<le> float_sub exact_floats b t"
    by (simp add: exact_floats_def)
  have h5: "\<forall>x. float_sub exact_floats x x = 0" by (simp add: exact_floats_def)
  have ia: "client_identity ?A = ''10.0.0.7''" and ib: "client_identity ?B = ''10.0.0.9''"
    by code_simp+
  have ta: "times_of ''10.0.0.7'' ?reqs = [0, 1, 2, 11]"
    and tb: "times_of ''10.0.0.9'' ?reqs = [0, 3]"
    and ta': "times_of ''10.0.0.7'' ?reqs' = [0, 1]"
    by (simp_all add: times_of_def ia ib)
  have a: "admitted_times exact_floats 2 10 [0, 1, 2, 11] = [0, 1, 11]"
    and b: "admitted_times exact_floats 2 10 [0, 3] = [0, 3]"
    and a': "admitted_times exact_floats 2 10 [0, 1] = [0, 1]"
    by (simp_all add: admitted_times_def exact_floats_def)
  have d: "str_int 2 = ''2''" "str_int 0 = ''0''" "str_int 22 = ''22''" "str_int 10 = ''10''"
    by code_simp+
  have f: "py_int_of_real 22 = 22" by (simp add: py_int_of_real_def)
  have fs: "float_sub exact_floats = (\<lambda>a b. a - b)" "float_add exact_floats = (\<lambda>a b. a + b)"
    by (simp_all add: exact_floats_def)
  from rate_limiter_window [OF h1 h2 h3 h4 h5, of Return "''10.0.0.7''" ?A 12 "Response_init []" Return]
  have w1: "get_or (rate_limiter_run exact_floats 2 10 Return ?reqs []) ''10.0.0.7'' [] = [11]"
    and w2: "snd (rate_limiter exact_floats 2 10 12 (rate_limiter_run exact_floats 2 10 Return ?reqs [])
                ?A (Response_init []) Return)
       = Return (set_header ''X-RateLimit-Reset'' ''22''
                  (set_header ''X-RateLimit-Remaining'' ''0''
                    (set_header ''X-RateLimit-Limit'' ''2'' (Response_init []))))"
    by (simp_all add: Let_def ta a d f fs ia)
  from rate_limiter_window [OF h1 h2 h3 h4 h5, of Return "''10.0.0.9''" ?B 12 "Response_init []" Return]
  have w3: "get_or (rate_limiter_run exact_floats 2 10 Return ?reqs []) ''10.0.0.9'' [] = [0, 3]"
    by (simp add: Let_def tb b fs)
  from rate_limiter_window [OF h1' h2 h3 h4 h5, of Return "''10.0.0.7''" ?A 2 "Response_init []" Return]
  have w4: "snd (rate_limiter exact_floats 2 10 2 (rate_limiter_run exact_floats 2 10 Return ?reqs' [])
                ?A (Response_init []) Return)
       = Return (send_json (JDict [(''error'', JStr ''Too Many Requests''),
                   (''message'', JStr ''Rate limit of 2 requests per 10 seconds exceeded'')])
                  (status 429 (Response_init [])))"
    by (simp add: Let_def ta' a' d fs ia)
  from h1 h2 h3 w1 w2 w3 w4 show ?thesis by blast
qed

end
